(* ===== verification/Prelude.thy ===== *)
theory Prelude
  imports Main "HOL-Library.Word"
begin

text \<open>
  Shared vocabulary of the MouseButtonClicker development: the Win32 integer types
  the source uses (\<open>LONG\<close>, \<open>UINT\<close>, \<open>DWORD\<close>, \<open>USHORT\<close>) as machine words of their
  width, the collections of rewrite rules the component theories fill, and the generic
  bit-level lemmas that the flag arithmetic of \<^verbatim>\<open>WndProc\<close> needs.
  C's \<^verbatim>\<open>x >> 1\<close> on an unsigned value is \<open>drop_bit 1 x\<close>, \<^verbatim>\<open>~x\<close> is \<open>NOT x\<close>,
  \<^verbatim>\<open>&\<close> and \<^verbatim>\<open>|\<close> are \<open>AND\<close> and \<open>OR\<close>; a signed comparison of \<^verbatim>\<open>LONG\<close>s reads
  both operands with \<open>sint\<close>.
\<close>

unbundle bit_operations_syntax

type_synonym LONG = "32 word"
type_synonym UINT = "32 word"
type_synonym DWORD = "32 word"
type_synonym USHORT = "16 word"

named_theorems win_defs "values of the Win32 SDK constants and of the source's macros"
named_theorems flag_bits "bit-level reading of the source's flag expressions"

text \<open>Widening a \<^verbatim>\<open>USHORT\<close> to a \<^verbatim>\<open>UINT\<close> keeps every bit.\<close>

lemma bit_ucast_ushort [flag_bits]:
  "bit (ucast (f :: USHORT) :: UINT) n \<longleftrightarrow> bit f n"
proof -
  have "bit f n \<Longrightarrow> n < 16"
    using bit_imp_le_length [of f n] by simp
  then show ?thesis by (auto simp: bit_ucast_iff)
qed

lemmas word_flag_ops [flag_bits] = bit_and_iff bit_or_iff bit_not_iff bit_drop_bit_eq

text \<open>A word is zero exactly when none of its bits is set.\<close>

lemma uint_eq_0_bits: "(w :: UINT) = 0 \<longleftrightarrow> (\<forall>n < 32. \<not> bit w n)"
proof
  assume "w = 0"
  then show "\<forall>n < 32. \<not> bit w n" by simp
next
  assume "\<forall>n < 32. \<not> bit w n"
  then show "w = 0" by (simp add: bit_eq_iff)
qed

text \<open>Two's complement negation of a \<^verbatim>\<open>LONG\<close> read as an integer: it is the integer
  negation except at the one value \<open>-2\<^sup>3\<^sup>1\<close>, which is its own negation.\<close>

lemma sint_uminus_long:
  "sint (- (v :: LONG)) = (if sint v = - (2 ^ 31) then - (2 ^ 31) else - sint v)"
proof -
  have lo: "- (2 ^ 31) \<le> sint v" and hi: "sint v < 2 ^ 31"
    using sint_ge [of v] sint_lt [of v] by simp_all
  have "sint (- v) = signed_take_bit 31 (- sint v)"
    by (simp add: sint_word_ariths)
  also have "\<dots> = (if sint v = - (2 ^ 31) then - (2 ^ 31) else - sint v)"
    using lo hi by (auto simp: signed_take_bit_int_eq_self signed_take_bit_int_eq_self_iff)
  finally show ?thesis .
qed

text \<open>Splitting the first index off a bounded quantifier over \<open>{1..n}\<close>: the step of
  an induction over the prefixes of a list.\<close>

lemma bex_atLeast1_Suc: "(\<exists>k \<in> {1..Suc n}. P k) \<longleftrightarrow> P 1 \<or> (\<exists>j \<in> {1..n}. P (Suc j))"
proof
  assume "\<exists>k \<in> {1..Suc n}. P k"
  then obtain k where "k \<in> {1..Suc n}" "P k" ..
  then show "P 1 \<or> (\<exists>j \<in> {1..n}. P (Suc j))"
  proof (cases "k = 1")
    case False
    with \<open>k \<in> {1..Suc n}\<close> have "k - 1 \<in> {1..n}" and "Suc (k - 1) = k" by auto
    with \<open>P k\<close> show ?thesis by metis
  qed simp
qed auto

text \<open>\<^verbatim>\<open>LONG\<close> addition is integer addition while the sum stays in range.\<close>

lemma sint_add_long:
  "- (2 ^ 31) \<le> sint a + sint b \<Longrightarrow> sint a + sint b < 2 ^ 31 \<Longrightarrow>
   sint ((a :: LONG) + b) = sint a + sint b"
  by (simp add: sint_word_ariths signed_take_bit_int_eq_self)

end
