(* ===== verification/Raw_Input.thy ===== *)
theory Raw_Input
  imports Prelude
begin

text \<open>
  The raw-input vocabulary of \<^verbatim>\<open>src/MouseButtonClicker.cpp\<close>: the Win32 SDK flag
  constants it tests (values of \<^verbatim>\<open>winuser.h\<close>), the source's own macros
  \<^verbatim>\<open>RI_ALL_MOUSE_BUTTONS_DOWN\<close> and \<^verbatim>\<open>RI_ALL_MOUSE_BUTTONS_UP\<close> (lines 18--19) with the
  compile-time assertions on them (lines 22--27), the \<^verbatim>\<open>RAWINPUT\<close>/\<^verbatim>\<open>RAWMOUSE\<close>
  fields \<^verbatim>\<open>WndProc\<close> reads, and the outcome of the two \<^verbatim>\<open>GetRawInputData\<close> calls and the
  \<^verbatim>\<open>_malloca\<close> between them.  It ends with the abstraction of a button bitmask to the
  set of buttons it names, used to state the bitmask updates against the spec's
  "bit set over {button1..button5}".
\<close>

unbundle bit_operations_syntax

subsection \<open>Win32 SDK constants\<close>

definition RI_MOUSE_BUTTON_1_DOWN :: UINT where [win_defs]: "RI_MOUSE_BUTTON_1_DOWN = 0x0001"
definition RI_MOUSE_BUTTON_1_UP :: UINT where [win_defs]: "RI_MOUSE_BUTTON_1_UP = 0x0002"
definition RI_MOUSE_BUTTON_2_DOWN :: UINT where [win_defs]: "RI_MOUSE_BUTTON_2_DOWN = 0x0004"
definition RI_MOUSE_BUTTON_2_UP :: UINT where [win_defs]: "RI_MOUSE_BUTTON_2_UP = 0x0008"
definition RI_MOUSE_BUTTON_3_DOWN :: UINT where [win_defs]: "RI_MOUSE_BUTTON_3_DOWN = 0x0010"
definition RI_MOUSE_BUTTON_3_UP :: UINT where [win_defs]: "RI_MOUSE_BUTTON_3_UP = 0x0020"
definition RI_MOUSE_BUTTON_4_DOWN :: UINT where [win_defs]: "RI_MOUSE_BUTTON_4_DOWN = 0x0040"
definition RI_MOUSE_BUTTON_4_UP :: UINT where [win_defs]: "RI_MOUSE_BUTTON_4_UP = 0x0080"
definition RI_MOUSE_BUTTON_5_DOWN :: UINT where [win_defs]: "RI_MOUSE_BUTTON_5_DOWN = 0x0100"
definition RI_MOUSE_BUTTON_5_UP :: UINT where [win_defs]: "RI_MOUSE_BUTTON_5_UP = 0x0200"
definition RI_MOUSE_WHEEL :: UINT where [win_defs]: "RI_MOUSE_WHEEL = 0x0400"
definition RI_MOUSE_HWHEEL :: UINT where [win_defs]: "RI_MOUSE_HWHEEL = 0x0800"

definition MOUSE_MOVE_ABSOLUTE :: USHORT where [win_defs]: "MOUSE_MOVE_ABSOLUTE = 0x01"
definition RIM_TYPEMOUSE :: DWORD where [win_defs]: "RIM_TYPEMOUSE = 0"
definition RIM_TYPEKEYBOARD :: DWORD where [win_defs]: "RIM_TYPEKEYBOARD = 1"

subsection \<open>The source's masks (lines 18--27)\<close>

definition RI_ALL_MOUSE_BUTTONS_DOWN :: UINT where [win_defs]:
  "RI_ALL_MOUSE_BUTTONS_DOWN = RI_MOUSE_BUTTON_1_DOWN OR RI_MOUSE_BUTTON_2_DOWN OR
     RI_MOUSE_BUTTON_3_DOWN OR RI_MOUSE_BUTTON_4_DOWN OR RI_MOUSE_BUTTON_5_DOWN"

definition RI_ALL_MOUSE_BUTTONS_UP :: UINT where [win_defs]:
  "RI_ALL_MOUSE_BUTTONS_UP = RI_MOUSE_BUTTON_1_UP OR RI_MOUSE_BUTTON_2_UP OR
     RI_MOUSE_BUTTON_3_UP OR RI_MOUSE_BUTTON_4_UP OR RI_MOUSE_BUTTON_5_UP"

text \<open>Lines 15 and 22--27: each \<^verbatim>\<open>COMPILE_TIME_ASSERT(e)\<close> declares an array type
  of size 1 when \<open>e\<close> holds and of size -1, a compile error, when it does not; the
  program compiles only if all six conditions hold.\<close>

definition compile_time_asserts_hold :: bool where
  "compile_time_asserts_hold \<longleftrightarrow>
     RI_MOUSE_BUTTON_1_DOWN = drop_bit 1 RI_MOUSE_BUTTON_1_UP \<and>
     RI_MOUSE_BUTTON_2_DOWN = drop_bit 1 RI_MOUSE_BUTTON_2_UP \<and>
     RI_MOUSE_BUTTON_3_DOWN = drop_bit 1 RI_MOUSE_BUTTON_3_UP \<and>
     RI_MOUSE_BUTTON_4_DOWN = drop_bit 1 RI_MOUSE_BUTTON_4_UP \<and>
     RI_MOUSE_BUTTON_5_DOWN = drop_bit 1 RI_MOUSE_BUTTON_5_UP \<and>
     RI_ALL_MOUSE_BUTTONS_DOWN = drop_bit 1 RI_ALL_MOUSE_BUTTONS_UP"

subsection \<open>Raw input records\<close>

text \<open>The fields of \<^verbatim>\<open>RAWMOUSE\<close> the source reads (\<^verbatim>\<open>usButtonData\<close>,
  \<^verbatim>\<open>ulRawButtons\<close> and \<^verbatim>\<open>ulExtraInformation\<close> are never read), and of
  \<^verbatim>\<open>RAWINPUT\<close> its header type and the mouse member of its data union.\<close>

record RAWMOUSE =
  usFlags :: USHORT
  usButtonFlags :: USHORT
  lLastX :: LONG
  lLastY :: LONG

record RAWINPUT =
  dwType :: DWORD
  mouse :: RAWMOUSE

text \<open>What the operating system answers to the three fallible calls of the
  \<^verbatim>\<open>WM_INPUT\<close> case (lines 51--59): the result of the size query (0 on success,
  \<^verbatim>\<open>(UINT)-1\<close> on error) and the size it writes, whether \<^verbatim>\<open>_malloca\<close> returned a
  buffer, the byte count the copying call returns, and the record it copies.\<close>

record raw_input_fetch =
  size_query_result :: UINT
  cbSize :: UINT
  buffer_allocated :: bool
  copy_result :: UINT
  raw_data :: RAWINPUT

subsection \<open>Buttons as a set\<close>

datatype button = Button1 | Button2 | Button3 | Button4 | Button5

definition all_buttons :: "button list" where
  "all_buttons = [Button1, Button2, Button3, Button4, Button5]"

primrec down_flag :: "button \<Rightarrow> UINT" where
  "down_flag Button1 = RI_MOUSE_BUTTON_1_DOWN"
| "down_flag Button2 = RI_MOUSE_BUTTON_2_DOWN"
| "down_flag Button3 = RI_MOUSE_BUTTON_3_DOWN"
| "down_flag Button4 = RI_MOUSE_BUTTON_4_DOWN"
| "down_flag Button5 = RI_MOUSE_BUTTON_5_DOWN"

primrec up_flag :: "button \<Rightarrow> UINT" where
  "up_flag Button1 = RI_MOUSE_BUTTON_1_UP"
| "up_flag Button2 = RI_MOUSE_BUTTON_2_UP"
| "up_flag Button3 = RI_MOUSE_BUTTON_3_UP"
| "up_flag Button4 = RI_MOUSE_BUTTON_4_UP"
| "up_flag Button5 = RI_MOUSE_BUTTON_5_UP"

text \<open>The buttons whose down flag (respectively up flag) is set in a word.\<close>

definition buttons_down_in :: "UINT \<Rightarrow> button set" where
  "buttons_down_in w = set (filter (\<lambda>b. w AND down_flag b \<noteq> 0) all_buttons)"

definition buttons_up_in :: "UINT \<Rightarrow> button set" where
  "buttons_up_in w = set (filter (\<lambda>b. w AND up_flag b \<noteq> 0) all_buttons)"

primrec down_pos :: "button \<Rightarrow> nat" where
  "down_pos Button1 = 0"
| "down_pos Button2 = 2"
| "down_pos Button3 = 4"
| "down_pos Button4 = 6"
| "down_pos Button5 = 8"

subsection \<open>Lemmas\<close>

lemma bit_all_buttons_down [flag_bits]:
  "bit RI_ALL_MOUSE_BUTTONS_DOWN n \<longleftrightarrow> n \<in> {0, 2, 4, 6, 8}"
proof -
  have e: "RI_ALL_MOUSE_BUTTONS_DOWN = 2 ^ 0 OR 2 ^ 2 OR 2 ^ 4 OR 2 ^ 6 OR 2 ^ 8"
    by (simp add: win_defs)
  show ?thesis unfolding e bit_or_iff bit_exp_iff by auto
qed

lemma bit_all_buttons_up [flag_bits]:
  "bit RI_ALL_MOUSE_BUTTONS_UP n \<longleftrightarrow> n \<in> {1, 3, 5, 7, 9}"
proof -
  have e: "RI_ALL_MOUSE_BUTTONS_UP = 2 ^ 1 OR 2 ^ 3 OR 2 ^ 5 OR 2 ^ 7 OR 2 ^ 9"
    by (simp add: win_defs)
  show ?thesis unfolding e bit_or_iff bit_exp_iff by auto
qed

lemma down_flag_pow: "down_flag b = 2 ^ down_pos b"
  by (cases b) (simp_all add: win_defs)

lemma up_flag_pow: "up_flag b = 2 ^ Suc (down_pos b)"
  by (cases b) (simp_all add: win_defs)

lemma down_pos_less: "down_pos b < 31"
  by (cases b) simp_all

lemma and_pow_UINT: "n < 32 \<Longrightarrow> (w :: UINT) AND 2 ^ n \<noteq> 0 \<longleftrightarrow> bit w n"
  using and_exp_eq_0_iff_not_bit [of w n] by simp

lemma mem_buttons_down_in [flag_bits]: "b \<in> buttons_down_in w \<longleftrightarrow> bit w (down_pos b)"
proof -
  have "b \<in> set all_buttons" by (cases b) (simp_all add: all_buttons_def)
  moreover have "w AND down_flag b \<noteq> 0 \<longleftrightarrow> bit w (down_pos b)"
    using down_pos_less [of b] by (simp add: down_flag_pow and_pow_UINT)
  ultimately show ?thesis by (simp add: buttons_down_in_def)
qed

lemma mem_buttons_up_in [flag_bits]: "b \<in> buttons_up_in w \<longleftrightarrow> bit w (Suc (down_pos b))"
proof -
  have "b \<in> set all_buttons" by (cases b) (simp_all add: all_buttons_def)
  moreover have "w AND up_flag b \<noteq> 0 \<longleftrightarrow> bit w (Suc (down_pos b))"
    using down_pos_less [of b] and_pow_UINT [of "Suc (down_pos b)" w]
    by (simp only: up_flag_pow)
  ultimately show ?thesis by (simp add: buttons_up_in_def)
qed

text \<open>The down-flag positions are exactly the bits of \<open>RI_ALL_MOUSE_BUTTONS_DOWN\<close>.\<close>

lemma bit_all_down_pos: "bit RI_ALL_MOUSE_BUTTONS_DOWN n \<longleftrightarrow> (\<exists>b. n = down_pos b)"
proof
  assume "bit RI_ALL_MOUSE_BUTTONS_DOWN n"
  then have "n \<in> {0, 2, 4, 6, 8}" by (simp add: bit_all_buttons_down)
  then show "\<exists>b. n = down_pos b"
    by (auto intro: exI [of _ Button1] exI [of _ Button2] exI [of _ Button3]
        exI [of _ Button4] exI [of _ Button5])
next
  assume "\<exists>b. n = down_pos b"
  then obtain b where "n = down_pos b" ..
  then show "bit RI_ALL_MOUSE_BUTTONS_DOWN n"
    by (cases b) (simp_all add: bit_all_buttons_down)
qed

text \<open>The six assertions hold for the SDK's values, so the program compiles.\<close>

lemma compile_time_asserts: compile_time_asserts_hold
  by (simp add: compile_time_asserts_hold_def win_defs)

end
