(* ===== verification/Win_Os.thy ===== *)
theory Win_Os
  imports Prelude
begin

text \<open>
  The effects of the Win32 calls \<^verbatim>\<open>WndProc\<close> makes, as operations on an explicit
  operating-system state: the window's timers (\<^verbatim>\<open>SetTimer\<close>, \<^verbatim>\<open>KillTimer\<close>), the
  stream of synthesized input (\<^verbatim>\<open>SendInput\<close>), the quit request
  (\<^verbatim>\<open>PostQuitMessage\<close>) and the user's double-click setting
  (\<^verbatim>\<open>GetDoubleClickTime\<close>).  They are not code of the repository: they follow the
  Win32 documentation.  The timers of the one window are a map from timer id to elapse
  time, so that replacing a timer with the same id (what \<^verbatim>\<open>SetTimer\<close> does) can
  never leave two of them, and killing a timer that is not there changes nothing.
  The record is extensible: the window procedure's own state extends it.

  Two of the calls can fail, and the source discards both results (\<^verbatim>\<open>(void)\<close>):
  \<^verbatim>\<open>SetTimer\<close> returns 0 and creates no timer when the system cannot create one,
  and \<^verbatim>\<open>SendInput\<close> returns 0 and inserts nothing when input is blocked (another
  thread's \<^verbatim>\<open>BlockInput\<close>, or the integrity-level filter).  These conditions are
  part of the operating-system state: \<open>set_timer_fails\<close> and \<open>input_blocked\<close>.
  A failed call leaves the state unchanged; a partial insertion by \<^verbatim>\<open>SendInput\<close>
  (fewer than all inputs) is not modelled.
\<close>

datatype mouse_input = MOUSEEVENTF_LEFTDOWN | MOUSEEVENTF_LEFTUP

record os_state =
  timers :: "UINT \<rightharpoonup> UINT"
  sent_input :: "mouse_input list"
  quit_posted :: "int option"
  double_click_time :: UINT
  set_timer_fails :: bool
  input_blocked :: bool

definition SetTimer :: "UINT \<Rightarrow> UINT \<Rightarrow> 'a os_state_scheme \<Rightarrow> 'a os_state_scheme" where
  "SetTimer nIDEvent uElapse s =
     (if set_timer_fails s then s else s\<lparr>timers := (timers s)(nIDEvent \<mapsto> uElapse)\<rparr>)"

definition KillTimer :: "UINT \<Rightarrow> 'a os_state_scheme \<Rightarrow> 'a os_state_scheme" where
  "KillTimer nIDEvent s = s\<lparr>timers := (timers s)(nIDEvent := None)\<rparr>"

text \<open>\<^verbatim>\<open>SendInput\<close> inserts its inputs serially and as one block: nothing else enters
  the input stream between them.\<close>

definition SendInput :: "mouse_input list \<Rightarrow> 'a os_state_scheme \<Rightarrow> 'a os_state_scheme" where
  "SendInput pInputs s = (if input_blocked s then s else s\<lparr>sent_input := sent_input s @ pInputs\<rparr>)"

definition PostQuitMessage :: "int \<Rightarrow> 'a os_state_scheme \<Rightarrow> 'a os_state_scheme" where
  "PostQuitMessage nExitCode s = s\<lparr>quit_posted := Some nExitCode\<rparr>"

definition GetDoubleClickTime :: "'a os_state_scheme \<Rightarrow> UINT" where
  "GetDoubleClickTime s = double_click_time s"

lemmas os_call_defs = SetTimer_def KillTimer_def SendInput_def PostQuitMessage_def
  GetDoubleClickTime_def

text \<open>Cancelling is idempotent; re-arming replaces; no call touches another timer id.\<close>

lemma KillTimer_idem: "KillTimer i (KillTimer i s) = KillTimer i s"
  by (simp add: KillTimer_def)

lemma SetTimer_replaces: "SetTimer i e' (SetTimer i e s) = SetTimer i e' s"
  by (simp add: SetTimer_def)

lemma dom_timers_SetTimer [simp]:
  "dom (timers (SetTimer i e s)) = (if set_timer_fails s then dom (timers s) else insert i (dom (timers s)))"
  by (simp add: SetTimer_def)

lemma dom_timers_KillTimer [simp]: "dom (timers (KillTimer i s)) = dom (timers s) - {i}"
  by (simp add: KillTimer_def)

end
