(* ===== verification/Wnd_Proc.thy ===== *)
theory Wnd_Proc
  imports Raw_Input Win_Os
begin

text \<open>
  The click decision engine: \<^verbatim>\<open>WndProc\<close> of \<^verbatim>\<open>src/MouseButtonClicker.cpp\<close>
  (lines 38--141).  Its function-local statics \<^verbatim>\<open>lLastClickDeltaX\<close>,
  \<^verbatim>\<open>lLastClickDeltaY\<close>, \<^verbatim>\<open>fOkToClick\<close> and \<^verbatim>\<open>usMouseButtonsDown\<close> are the fields
  of \<open>wnd_state\<close>, which extends the operating-system state of \<open>Win_Os\<close>; each
  message case is one definition, composed as the \<^verbatim>\<open>switch\<close> composes them.
  \<^verbatim>\<open>LONG\<close> arithmetic wraps around at 32 bits (what the compiled code does; the C
  standard leaves signed overflow undefined), and \<^verbatim>\<open>ABS\<close> is the source's macro on
  such a value, so \<open>ABS (-2\<^sup>3\<^sup>1) = -2\<^sup>3\<^sup>1\<close>.
\<close>

unbundle bit_operations_syntax

subsection \<open>State and constants\<close>

record wnd_state = os_state +
  lLastClickDeltaX :: LONG
  lLastClickDeltaY :: LONG
  fOkToClick :: bool
  usMouseButtonsDown :: UINT

definition TIMER_EVENT_ID :: UINT where [win_defs]: "TIMER_EVENT_ID = 1"

definition MOUSE_MOVE_THRESHOLD :: LONG where [win_defs]: "MOUSE_MOVE_THRESHOLD = 2"

definition ABS :: "LONG \<Rightarrow> LONG" where
  "ABS v = (if 0 \<le> sint v then v else - v)"

text \<open>The process starts with its statics zero and no timer, input or quit request.\<close>

definition init_state :: "UINT \<Rightarrow> wnd_state" where
  "init_state dct = \<lparr>timers = Map.empty, sent_input = [], quit_posted = None,
     double_click_time = dct, set_timer_fails = False, input_blocked = False, lLastClickDeltaX = 0, lLastClickDeltaY = 0,
     fOkToClick = False, usMouseButtonsDown = 0\<rparr>"

subsection \<open>The pieces of the \<^verbatim>\<open>WM_INPUT\<close> case\<close>

text \<open>The test of line 77, on one accumulated delta: a signed \<^verbatim>\<open>LONG\<close> comparison.\<close>

definition exceeds_threshold :: "LONG \<Rightarrow> bool" where
  "exceeds_threshold v \<longleftrightarrow> sint MOUSE_MOVE_THRESHOLD < sint (ABS v)"

text \<open>Line 81: does the report carry a button transition or a (vertical) wheel turn?\<close>

definition button_or_wheel :: "UINT \<Rightarrow> bool" where
  "button_or_wheel flags \<longleftrightarrow>
     flags AND (RI_ALL_MOUSE_BUTTONS_DOWN OR RI_ALL_MOUSE_BUTTONS_UP OR RI_MOUSE_WHEEL) \<noteq> 0"

text \<open>Lines 96--97: set the down bits, then clear the bit paired with each up bit.\<close>

definition update_buttons_down :: "UINT \<Rightarrow> UINT \<Rightarrow> UINT" where
  "update_buttons_down flags down =
     (down OR (flags AND RI_ALL_MOUSE_BUTTONS_DOWN))
       AND NOT (drop_bit 1 (flags AND RI_ALL_MOUSE_BUTTONS_UP))"

text \<open>Lines 99--102, repeated at 125--128.\<close>

definition reset_click_tracking :: "'a wnd_state_scheme \<Rightarrow> 'a wnd_state_scheme" where
  "reset_click_tracking s = s\<lparr>lLastClickDeltaX := 0, lLastClickDeltaY := 0, fOkToClick := False\<rparr>"

text \<open>Lines 72--77: add the report's deltas, then arm once either accumulated delta
  exceeds the threshold (a monotonic \<^verbatim>\<open>|=\<close>).\<close>

definition accumulate_motion :: "RAWMOUSE \<Rightarrow> 'a wnd_state_scheme \<Rightarrow> 'a wnd_state_scheme" where
  "accumulate_motion m s =
     (let s1 = s\<lparr>lLastClickDeltaX := lLastClickDeltaX s + lLastX m,
                 lLastClickDeltaY := lLastClickDeltaY s + lLastY m\<rparr>
      in s1\<lparr>fOkToClick := fOkToClick s1 \<or>
               (exceeds_threshold (lLastClickDeltaX s1) \<or> exceeds_threshold (lLastClickDeltaY s1))\<rparr>)"

text \<open>Lines 69--103: a report of a relative-coordinate mouse.  The deltas are added
  and the threshold tested before the report is classified, so a button or wheel report
  that also carries motion first accumulates it and then resets it.\<close>

definition relative_mouse_input :: "RAWMOUSE \<Rightarrow> 'a wnd_state_scheme \<Rightarrow> 'a wnd_state_scheme" where
  "relative_mouse_input m s =
     (let s2 = accumulate_motion m s;
          flags = (ucast (usButtonFlags m) :: UINT)
      in if \<not> button_or_wheel flags
         then (if usMouseButtonsDown s2 = 0 \<and> fOkToClick s2
               then SetTimer TIMER_EVENT_ID (GetDoubleClickTime s2) s2
               else s2)
         else reset_click_tracking
                ((KillTimer TIMER_EVENT_ID s2)
                   \<lparr>usMouseButtonsDown := update_buttons_down flags (usMouseButtonsDown s2)\<rparr>))"

text \<open>Lines 48--112: the three fallible calls, then the two filters (mouse input only,
  relative coordinates only).  Every failure leaves the state as it was.\<close>

definition on_WM_INPUT :: "raw_input_fetch \<Rightarrow> 'a wnd_state_scheme \<Rightarrow> 'a wnd_state_scheme" where
  "on_WM_INPUT r s =
     (if 0 = size_query_result r then
        (if buffer_allocated r then
           (if cbSize r = copy_result r then
              (let pRawInput = raw_data r in
               if RIM_TYPEMOUSE = dwType pRawInput then
                 (if 0 = usFlags (mouse pRawInput) AND MOUSE_MOVE_ABSOLUTE
                  then relative_mouse_input (mouse pRawInput) s
                  else s)
               else s)
            else s)
         else s)
      else s)"

text \<open>Lines 114--130: stop the timer, inject one left click as a single two-input
  \<^verbatim>\<open>SendInput\<close>, reset.\<close>

definition on_WM_TIMER :: "'a wnd_state_scheme \<Rightarrow> 'a wnd_state_scheme" where
  "on_WM_TIMER s =
     reset_click_tracking
       (SendInput [MOUSEEVENTF_LEFTDOWN, MOUSEEVENTF_LEFTUP] (KillTimer TIMER_EVENT_ID s))"

subsection \<open>The window procedure\<close>

text \<open>The messages the window receives: \<^verbatim>\<open>WM_TIMER\<close> carries its timer id in
  \<^verbatim>\<open>wParam\<close>, which the source does not read; any other message number goes to
  \<^verbatim>\<open>DefWindowProc\<close>.\<close>

datatype message = WM_INPUT raw_input_fetch | WM_TIMER UINT | WM_DESTROY | WM_OTHER UINT

datatype lresult = Processed | DefWindowProc_result

fun WndProc :: "message \<Rightarrow> 'a wnd_state_scheme \<Rightarrow> lresult \<times> 'a wnd_state_scheme" where
  "WndProc (WM_INPUT r) s = (Processed, on_WM_INPUT r s)"
| "WndProc (WM_TIMER wParam) s = (Processed, on_WM_TIMER s)"
| "WndProc WM_DESTROY s = (Processed, PostQuitMessage 0 s)"
| "WndProc (WM_OTHER msg) s = (DefWindowProc_result, s)"

text \<open>Dispatching a sequence of messages in order, one at a time to completion.\<close>

fun dispatch :: "message list \<Rightarrow> 'a wnd_state_scheme \<Rightarrow> 'a wnd_state_scheme" where
  "dispatch [] s = s"
| "dispatch (m # ms) s = dispatch ms (snd (WndProc m s))"

subsection \<open>Predicates of the analysis\<close>

text \<open>The five guards of the \<^verbatim>\<open>WM_INPUT\<close> case (lines 52, 56, 59, 63, 67) together.\<close>

definition accepted_report :: "raw_input_fetch \<Rightarrow> bool" where
  "accepted_report r \<longleftrightarrow> 0 = size_query_result r \<and> buffer_allocated r \<and>
     cbSize r = copy_result r \<and> RIM_TYPEMOUSE = dwType (raw_data r) \<and>
     0 = usFlags (mouse (raw_data r)) AND MOUSE_MOVE_ABSOLUTE"

text \<open>The synthesized input is a sequence of whole clicks: down, then up.\<close>

fun click_pairs :: "mouse_input list \<Rightarrow> bool" where
  "click_pairs [] = True"
| "click_pairs (MOUSEEVENTF_LEFTDOWN # MOUSEEVENTF_LEFTUP # xs) = click_pairs xs"
| "click_pairs _ = False"

definition only_down_bits :: "UINT \<Rightarrow> bool" where
  "only_down_bits w \<longleftrightarrow> w AND NOT RI_ALL_MOUSE_BUTTONS_DOWN = 0"

definition timer_pending :: "'a wnd_state_scheme \<Rightarrow> bool" where
  "timer_pending s \<longleftrightarrow> timers s TIMER_EVENT_ID \<noteq> None"

text \<open>What the window procedure keeps true between messages.\<close>

definition wnd_inv :: "'a wnd_state_scheme \<Rightarrow> bool" where
  "wnd_inv s \<longleftrightarrow> dom (timers s) \<subseteq> {TIMER_EVENT_ID} \<and> only_down_bits (usMouseButtonsDown s) \<and>
     (timer_pending s \<longrightarrow> usMouseButtonsDown s = 0 \<and> fOkToClick s) \<and> click_pairs (sent_input s)"

text \<open>The operating system posts \<^verbatim>\<open>WM_TIMER\<close> only for a timer that is set
  (\<^verbatim>\<open>KillTimer\<close> also removes a \<^verbatim>\<open>WM_TIMER\<close> already queued).  A run of messages
  the system can deliver, and the number of messages in it that arm a timer that was
  not pending.\<close>

fun os_may_deliver :: "message \<Rightarrow> 'a wnd_state_scheme \<Rightarrow> bool" where
  "os_may_deliver (WM_TIMER i) s = (timers s i \<noteq> None)"
| "os_may_deliver _ s = True"

fun os_run :: "message list \<Rightarrow> 'a wnd_state_scheme \<Rightarrow> bool" where
  "os_run [] s = True"
| "os_run (m # ms) s = (os_may_deliver m s \<and> os_run ms (snd (WndProc m s)))"

fun arm_count :: "message list \<Rightarrow> 'a wnd_state_scheme \<Rightarrow> nat" where
  "arm_count [] s = 0"
| "arm_count (m # ms) s =
     (let s' = snd (WndProc m s)
      in (if \<not> timer_pending s \<and> timer_pending s' then 1 else 0) + arm_count ms s')"

definition clicks :: "'a wnd_state_scheme \<Rightarrow> nat" where
  "clicks s = count_list (sent_input s) MOUSEEVENTF_LEFTDOWN"

text \<open>Concrete reports for the examples: a relative move by \<open>(dx, dy)\<close> with no button
  flags, and a report with button flags and no motion, each delivered without error.\<close>

definition motion_report :: "LONG \<Rightarrow> LONG \<Rightarrow> raw_input_fetch" where
  "motion_report dx dy = \<lparr>size_query_result = 0, cbSize = 48, buffer_allocated = True,
     copy_result = 48, raw_data = \<lparr>dwType = RIM_TYPEMOUSE,
       mouse = \<lparr>usFlags = 0, usButtonFlags = 0, lLastX = dx, lLastY = dy\<rparr>\<rparr>\<rparr>"

definition button_report :: "USHORT \<Rightarrow> raw_input_fetch" where
  "button_report flags = \<lparr>size_query_result = 0, cbSize = 48, buffer_allocated = True,
     copy_result = 48, raw_data = \<lparr>dwType = RIM_TYPEMOUSE,
       mouse = \<lparr>usFlags = 0, usButtonFlags = flags, lLastX = 0, lLastY = 0\<rparr>\<rparr>\<rparr>"

text \<open>The engine's own state: the four statics of \<^verbatim>\<open>WndProc\<close>.\<close>

definition statics :: "'a wnd_state_scheme \<Rightarrow> LONG \<times> LONG \<times> bool \<times> UINT" where
  "statics s = (lLastClickDeltaX s, lLastClickDeltaY s, fOkToClick s, usMouseButtonsDown s)"

text \<open>The spec's condition for arming: some prefix of the reports brings one of the
  accumulated deltas past the threshold.\<close>

definition running_sum_exceeds :: "LONG \<Rightarrow> LONG \<Rightarrow> RAWMOUSE list \<Rightarrow> bool" where
  "running_sum_exceeds x0 y0 ms \<longleftrightarrow>
     (\<exists>k \<in> {1..length ms}. exceeds_threshold (x0 + sum_list (map lLastX (take k ms))) \<or>
                           exceeds_threshold (y0 + sum_list (map lLastY (take k ms))))"

text \<open>The window states the program can reach: the initial state, and every state
  one message further on, for a message the operating system may deliver there.\<close>

inductive reachable :: "UINT \<Rightarrow> wnd_state \<Rightarrow> bool" for dct where
  reachable_init: "reachable dct (init_state dct)"
| reachable_step: "reachable dct s \<Longrightarrow> os_may_deliver msg s \<Longrightarrow> reachable dct (snd (WndProc msg s))"

subsection \<open>Lemmas: the button bitmask\<close>

lemma bit_update_buttons_down:
  "bit (update_buttons_down f d) n \<longleftrightarrow>
     n < 32 \<and> (bit d n \<or> bit f n \<and> n \<in> {0, 2, 4, 6, 8}) \<and> \<not> (bit f (Suc n) \<and> n \<in> {0, 2, 4, 6, 8})"
  by (auto simp: update_buttons_down_def flag_bits)

lemma update_buttons_down_only_down_bits:
  "only_down_bits d \<Longrightarrow> only_down_bits (update_buttons_down f d)"
  unfolding only_down_bits_def bit_eq_iff
  by (auto simp: bit_update_buttons_down flag_bits)

lemma only_down_bits_zero_iff:
  assumes "only_down_bits d"
  shows "d = 0 \<longleftrightarrow> buttons_down_in d = {}"
proof
  assume "buttons_down_in d = {}"
  then have none: "\<not> bit d (down_pos b)" for b
    by (auto simp: mem_buttons_down_in)
  have "\<not> bit d n" for n
  proof
    assume "bit d n"
    moreover have "n < 32" using bit_imp_le_length [OF \<open>bit d n\<close>] by simp
    ultimately have "bit RI_ALL_MOUSE_BUTTONS_DOWN n"
      using assms unfolding only_down_bits_def bit_eq_iff by (auto simp: flag_bits)
    then obtain b where "n = down_pos b" by (auto simp: bit_all_down_pos)
    with none \<open>bit d n\<close> show False by simp
  qed
  then show "d = 0" by (simp add: bit_eq_iff)
qed (auto simp: mem_buttons_down_in)

lemma only_down_bits_bit:
  "only_down_bits w \<Longrightarrow> bit w n \<Longrightarrow> n \<in> {0, 2, 4, 6, 8}"
proof -
  assume o: "only_down_bits w" and b: "bit w n"
  have "n < 32" using bit_imp_le_length [OF b] by simp
  with o b have "bit RI_ALL_MOUSE_BUTTONS_DOWN n"
    unfolding only_down_bits_def bit_eq_iff by (auto simp: flag_bits)
  then show ?thesis by (simp add: flag_bits)
qed

subsection \<open>Lemmas: the handlers\<close>

lemma on_WM_INPUT_accepted:
  "on_WM_INPUT r s = (if accepted_report r then relative_mouse_input (mouse (raw_data r)) s else s)"
  by (simp add: on_WM_INPUT_def accepted_report_def Let_def)

lemma accumulate_motion_fields [simp]:
  "timers (accumulate_motion m s) = timers s"
  "sent_input (accumulate_motion m s) = sent_input s"
  "quit_posted (accumulate_motion m s) = quit_posted s"
  "double_click_time (accumulate_motion m s) = double_click_time s"
  "usMouseButtonsDown (accumulate_motion m s) = usMouseButtonsDown s"
  "lLastClickDeltaX (accumulate_motion m s) = lLastClickDeltaX s + lLastX m"
  "lLastClickDeltaY (accumulate_motion m s) = lLastClickDeltaY s + lLastY m"
  "fOkToClick (accumulate_motion m s) \<longleftrightarrow> fOkToClick s \<or>
     exceeds_threshold (lLastClickDeltaX s + lLastX m) \<or> exceeds_threshold (lLastClickDeltaY s + lLastY m)"
  "set_timer_fails (accumulate_motion m s) = set_timer_fails s"
  "input_blocked (accumulate_motion m s) = input_blocked s"
  by (simp_all add: accumulate_motion_def Let_def)

lemma relative_mouse_input_motion:
  "\<not> button_or_wheel (ucast (usButtonFlags m)) \<Longrightarrow>
   relative_mouse_input m s =
     (if usMouseButtonsDown s = 0 \<and> fOkToClick (accumulate_motion m s)
      then SetTimer TIMER_EVENT_ID (double_click_time s) (accumulate_motion m s)
      else accumulate_motion m s)"
  unfolding relative_mouse_input_def GetDoubleClickTime_def Let_def
  by (simp del: accumulate_motion_fields(8))

lemma relative_mouse_input_button:
  "button_or_wheel (ucast (usButtonFlags m)) \<Longrightarrow>
   relative_mouse_input m s =
     reset_click_tracking ((KillTimer TIMER_EVENT_ID (accumulate_motion m s))
       \<lparr>usMouseButtonsDown := update_buttons_down (ucast (usButtonFlags m)) (usMouseButtonsDown s)\<rparr>)"
  by (simp add: relative_mouse_input_def Let_def)

lemma click_pairs_append_click:
  "click_pairs xs \<Longrightarrow> click_pairs (xs @ [MOUSEEVENTF_LEFTDOWN, MOUSEEVENTF_LEFTUP])"
  by (induction xs rule: click_pairs.induct) simp_all

lemmas state_defs = reset_click_tracking_def os_call_defs timer_pending_def

text \<open>No message changes whether the system's calls fail.\<close>

lemma WndProc_os_conditions [simp]:
  "set_timer_fails (snd (WndProc msg s)) = set_timer_fails s"
  "input_blocked (snd (WndProc msg s)) = input_blocked s"
proof -
  have "set_timer_fails (relative_mouse_input m s) = set_timer_fails s \<and>
      input_blocked (relative_mouse_input m s) = input_blocked s" for m
    by (simp add: relative_mouse_input_def Let_def state_defs)
  then show "set_timer_fails (snd (WndProc msg s)) = set_timer_fails s"
    "input_blocked (snd (WndProc msg s)) = input_blocked s"
    by (cases msg; simp add: on_WM_INPUT_accepted on_WM_TIMER_def state_defs)+
qed

lemma dispatch_os_conditions [simp]:
  "set_timer_fails (dispatch ms s) = set_timer_fails s"
  "input_blocked (dispatch ms s) = input_blocked s"
  by (induction ms arbitrary: s) simp_all

subsection \<open>Lemmas: the invariant\<close>

lemma wnd_inv_init: "wnd_inv (init_state dct)"
  by (simp add: wnd_inv_def init_state_def only_down_bits_def timer_pending_def)

lemma relative_mouse_input_wnd_inv:
  assumes "wnd_inv s"
  shows "wnd_inv (relative_mouse_input m s)"
proof (cases "button_or_wheel (ucast (usButtonFlags m))")
  case True
  with assms show ?thesis
    by (auto simp: relative_mouse_input_button wnd_inv_def state_defs
        update_buttons_down_only_down_bits)
next
  case False
  with assms show ?thesis
    by (auto simp: relative_mouse_input_motion wnd_inv_def state_defs)
qed

lemma WndProc_wnd_inv: "wnd_inv s \<Longrightarrow> wnd_inv (snd (WndProc msg s))"
proof (cases msg)
  case (WM_INPUT r)
  then show "wnd_inv s \<Longrightarrow> ?thesis"
    by (simp add: on_WM_INPUT_accepted relative_mouse_input_wnd_inv)
next
  case (WM_TIMER i)
  then show "wnd_inv s \<Longrightarrow> ?thesis"
    by (auto simp: on_WM_TIMER_def wnd_inv_def state_defs click_pairs_append_click)
qed (auto simp: wnd_inv_def state_defs)

lemma dispatch_wnd_inv: "wnd_inv s \<Longrightarrow> wnd_inv (dispatch ms s)"
  by (induction ms arbitrary: s) (simp_all add: WndProc_wnd_inv)

lemma dispatch_append: "dispatch (xs @ ys) s = dispatch ys (dispatch xs s)"
  by (induction xs arbitrary: s) simp_all

lemma on_WM_INPUT_sent_input [simp]: "sent_input (on_WM_INPUT r s) = sent_input s"
proof -
  have "sent_input (relative_mouse_input m s) = sent_input s" for m
    by (simp add: relative_mouse_input_def Let_def state_defs)
  then show ?thesis by (simp add: on_WM_INPUT_accepted)
qed

lemma running_sum_exceeds_Nil [simp]: "\<not> running_sum_exceeds x y []"
  by (simp add: running_sum_exceeds_def)

lemma running_sum_exceeds_Cons:
  "running_sum_exceeds x y (m # ms) \<longleftrightarrow>
     exceeds_threshold (x + lLastX m) \<or> exceeds_threshold (y + lLastY m) \<or>
     running_sum_exceeds (x + lLastX m) (y + lLastY m) ms"
  unfolding running_sum_exceeds_def length_Cons bex_atLeast1_Suc
  by (simp add: add.assoc)

lemmas wnd_eval = on_WM_INPUT_def relative_mouse_input_def accumulate_motion_def
  exceeds_threshold_def ABS_def button_or_wheel_def update_buttons_down_def
  reset_click_tracking_def on_WM_TIMER_def os_call_defs init_state_def
  motion_report_def button_report_def win_defs Let_def

text \<open>A run of motion-only reports while no button is held: the deltas add up, the
  armed flag becomes the spec's prefix condition, and the timer is pending afterwards
  exactly when it was before or some report arrived with the flag set and the system
  could create the timer.\<close>

lemma fold_motion_reports:
  assumes "\<forall>m \<in> set ms. \<not> button_or_wheel (ucast (usButtonFlags m))"
    and "usMouseButtonsDown s = 0"
  shows "usMouseButtonsDown (fold relative_mouse_input ms s) = 0 \<and>
    (fOkToClick (fold relative_mouse_input ms s) \<longleftrightarrow>
       fOkToClick s \<or> running_sum_exceeds (lLastClickDeltaX s) (lLastClickDeltaY s) ms) \<and>
    (timer_pending (fold relative_mouse_input ms s) \<longleftrightarrow>
       timer_pending s \<or>
       (ms \<noteq> [] \<and> fOkToClick (fold relative_mouse_input ms s) \<and> \<not> set_timer_fails s))"
  using assms
proof (induction ms arbitrary: s)
  case Nil
  then show ?case by simp
next
  case (Cons m ms)
  let ?s' = "relative_mouse_input m s"
  have step: "?s' = (if fOkToClick (accumulate_motion m s)
      then SetTimer TIMER_EVENT_ID (double_click_time s) (accumulate_motion m s)
      else accumulate_motion m s)"
    using Cons.prems by (simp add: relative_mouse_input_motion)
  have b: "usMouseButtonsDown ?s' = 0"
    using Cons.prems step by (simp add: state_defs)
  have ok: "fOkToClick ?s' \<longleftrightarrow> fOkToClick s \<or> exceeds_threshold (lLastClickDeltaX s + lLastX m) \<or>
      exceeds_threshold (lLastClickDeltaY s + lLastY m)"
    using step by (simp add: state_defs)
  have pend: "timer_pending ?s' \<longleftrightarrow> timer_pending s \<or> (fOkToClick ?s' \<and> \<not> set_timer_fails s)"
    using step by (auto simp: state_defs)
  have sf: "set_timer_fails ?s' = set_timer_fails s"
    using step by (simp add: state_defs)
  have xy: "lLastClickDeltaX ?s' = lLastClickDeltaX s + lLastX m"
    "lLastClickDeltaY ?s' = lLastClickDeltaY s + lLastY m"
    using step by (simp_all add: state_defs)
  have mono: "fOkToClick ?s' \<Longrightarrow> fOkToClick (fold relative_mouse_input ms ?s')"
    using Cons.IH [of ?s'] Cons.prems b by simp
  show ?case
    using Cons.IH [of ?s'] Cons.prems b ok pend sf xy mono
    by (auto simp: running_sum_exceeds_Cons)
qed

lemma clicks_WndProc_step:
  assumes "wnd_inv s" and "os_may_deliver msg s"
  shows "clicks (snd (WndProc msg s)) + (if timer_pending (snd (WndProc msg s)) then 1 else 0)
    \<le> clicks s + (if timer_pending s then 1 else 0) +
      (if \<not> timer_pending s \<and> timer_pending (snd (WndProc msg s)) then 1 else 0)"
proof (cases msg)
  case (WM_TIMER i)
  with assms have "timers s i \<noteq> None" by simp
  with assms(1) have "timer_pending s"
    by (auto simp: wnd_inv_def timer_pending_def)
  with WM_TIMER show ?thesis
    by (simp add: on_WM_TIMER_def clicks_def state_defs)
qed (auto simp: clicks_def state_defs)

lemma dispatch_clicks:
  "os_run ms s \<Longrightarrow> wnd_inv s \<Longrightarrow>
   clicks (dispatch ms s) + (if timer_pending (dispatch ms s) then 1 else 0)
     \<le> clicks s + (if timer_pending s then 1 else 0) + arm_count ms s"
proof (induction ms arbitrary: s)
  case Nil
  then show ?case by simp
next
  case (Cons msg ms)
  let ?s' = "snd (WndProc msg s)"
  from Cons.prems have "os_run ms ?s'" and "wnd_inv ?s'"
    by (simp_all add: WndProc_wnd_inv)
  then have "clicks (dispatch ms ?s') + (if timer_pending (dispatch ms ?s') then 1 else 0)
      \<le> clicks ?s' + (if timer_pending ?s' then 1 else 0) + arm_count ms ?s'"
    by (rule Cons.IH)
  moreover have "clicks ?s' + (if timer_pending ?s' then 1 else 0)
      \<le> clicks s + (if timer_pending s then 1 else 0) +
        (if \<not> timer_pending s \<and> timer_pending ?s' then 1 else 0)"
    using Cons.prems by (intro clicks_WndProc_step) simp_all
  ultimately show ?case by (simp add: Let_def)
qed

subsection \<open>Lemmas: reachable states\<close>

text \<open>Between messages the click timer is pending exactly when the engine is armed and
  no button is held: motion that arms with no button held sets it, and every path that
  clears the armed flag or holds a button also kills it.\<close>

lemma WndProc_timer_iff_armed_idle:
  assumes "\<not> set_timer_fails s" and "timer_pending s \<longleftrightarrow> fOkToClick s \<and> usMouseButtonsDown s = 0"
  shows "timer_pending (snd (WndProc msg s)) \<longleftrightarrow>
    fOkToClick (snd (WndProc msg s)) \<and> usMouseButtonsDown (snd (WndProc msg s)) = 0"
proof (cases msg)
  case (WM_INPUT r)
  have "timer_pending (relative_mouse_input m s) \<longleftrightarrow>
      fOkToClick (relative_mouse_input m s) \<and> usMouseButtonsDown (relative_mouse_input m s) = 0" for m
  proof (cases "button_or_wheel (ucast (usButtonFlags m))")
    case True
    then show ?thesis by (simp add: relative_mouse_input_button state_defs)
  next
    case False
    with assms show ?thesis
      by (auto simp: relative_mouse_input_motion state_defs)
  qed
  with WM_INPUT assms show ?thesis by (simp add: on_WM_INPUT_accepted)
qed (use assms in \<open>simp_all add: on_WM_TIMER_def state_defs\<close>)

lemma reachable_inv:
  "reachable dct s \<Longrightarrow> wnd_inv s \<and> (timer_pending s \<longleftrightarrow> fOkToClick s \<and> usMouseButtonsDown s = 0) \<and>
     \<not> set_timer_fails s \<and> \<not> input_blocked s"
proof (induction rule: reachable.induct)
  case reachable_init
  show ?case using wnd_inv_init [of dct] by (simp add: init_state_def timer_pending_def)
next
  case (reachable_step s msg)
  then show ?case by (simp add: WndProc_wnd_inv WndProc_timer_iff_armed_idle)
qed

subsection \<open>Lemmas: failing system calls\<close>

text \<open>The statics after a message depend only on the statics before it: not on the
  timers, the injected input, or whether the system's calls fail.\<close>

lemma statics_relative_mouse_input:
  "statics s = statics t \<Longrightarrow> statics (relative_mouse_input m s) = statics (relative_mouse_input m t)"
  by (simp add: statics_def relative_mouse_input_def Let_def state_defs)

lemma statics_WndProc:
  assumes "statics s = statics t"
  shows "statics (snd (WndProc msg s)) = statics (snd (WndProc msg t))"
proof (cases msg)
  case (WM_INPUT r)
  with statics_relative_mouse_input [OF assms, of "mouse (raw_data r)"] assms show ?thesis
    by (simp add: on_WM_INPUT_accepted)
qed (use assms in \<open>simp_all add: statics_def on_WM_TIMER_def state_defs\<close>)

lemma WndProc_no_timer:
  assumes "set_timer_fails s" and "timers s = Map.empty" and "os_may_deliver msg s"
  shows "timers (snd (WndProc msg s)) = Map.empty \<and> clicks (snd (WndProc msg s)) = clicks s"
proof (cases msg)
  case (WM_INPUT r)
  have "timers (relative_mouse_input m s) = Map.empty \<and> sent_input (relative_mouse_input m s) = sent_input s" for m
    using assms(1,2) by (simp add: relative_mouse_input_def Let_def state_defs)
  with WM_INPUT assms(2) show ?thesis by (simp add: on_WM_INPUT_accepted clicks_def)
next
  case (WM_TIMER i)
  with assms(2,3) show ?thesis by simp
qed (use assms in \<open>simp_all add: state_defs clicks_def\<close>)

subsection \<open>Lemmas: wheel flags and single-button reports\<close>

text \<open>Bit 11 (\<^verbatim>\<open>RI_MOUSE_HWHEEL\<close>) is in none of the masks of lines 81, 96 and 97;
  bit 10 (\<^verbatim>\<open>RI_MOUSE_WHEEL\<close>) is in the mask of line 81.\<close>

lemma bit_RI_MOUSE_WHEEL: "bit RI_MOUSE_WHEEL n \<longleftrightarrow> n = 10"
proof -
  have e: "RI_MOUSE_WHEEL = 2 ^ 10" by (simp add: win_defs)
  show ?thesis unfolding e bit_exp_iff by auto
qed

lemma ucast_or_hwheel_and:
  "\<not> bit M 11 \<Longrightarrow> (ucast (f OR 0x0800 :: USHORT) :: UINT) AND M = ucast f AND M"
proof -
  assume nb: "\<not> bit M 11"
  have e: "(0x0800 :: USHORT) = 2 ^ 11" by simp
  have h: "bit (0x0800 :: USHORT) n \<Longrightarrow> n = 11" for n
    unfolding e bit_exp_iff by simp
  show ?thesis
  proof (rule bit_eqI)
    fix n
    show "bit ((ucast (f OR 0x0800 :: USHORT) :: UINT) AND M) n \<longleftrightarrow> bit (ucast f AND M) n"
      using h [of n] nb by (auto simp: flag_bits)
  qed
qed

lemma relative_mouse_input_hwheel:
  "relative_mouse_input (m\<lparr>usButtonFlags := usButtonFlags m OR 0x0800\<rparr>) s = relative_mouse_input m s"
proof -
  have "\<not> bit (RI_ALL_MOUSE_BUTTONS_DOWN OR RI_ALL_MOUSE_BUTTONS_UP OR RI_MOUSE_WHEEL) 11"
    "\<not> bit RI_ALL_MOUSE_BUTTONS_DOWN 11" "\<not> bit RI_ALL_MOUSE_BUTTONS_UP 11"
    by (simp_all add: flag_bits bit_RI_MOUSE_WHEEL)
  then show ?thesis
    by (simp add: relative_mouse_input_def button_or_wheel_def update_buttons_down_def
        ucast_or_hwheel_and accumulate_motion_def Let_def)
qed

lemma button_or_wheel_wheel: "button_or_wheel (ucast (f OR 0x0400 :: USHORT))"
proof -
  have "bit ((ucast (f OR 0x0400 :: USHORT) :: UINT) AND
      (RI_ALL_MOUSE_BUTTONS_DOWN OR RI_ALL_MOUSE_BUTTONS_UP OR RI_MOUSE_WHEEL)) 10"
  proof -
    have e: "(0x0400 :: USHORT) = 2 ^ 10" by simp
    have "bit (0x0400 :: USHORT) 10" unfolding e bit_exp_iff by simp
    then show ?thesis by (simp add: flag_bits bit_RI_MOUSE_WHEEL)
  qed
  then show ?thesis unfolding button_or_wheel_def by (auto simp del: bit_and_iff)
qed

lemma buttons_in_flag:
  "buttons_down_in (down_flag b) = {b}" "buttons_up_in (down_flag b) = {}"
  "buttons_down_in (up_flag b) = {}" "buttons_up_in (up_flag b) = {b}"
  by (cases b; simp add: buttons_down_in_def buttons_up_in_def all_buttons_def win_defs)+

lemma button_or_wheel_flag:
  "button_or_wheel (down_flag b)" "button_or_wheel (up_flag b)"
  by (cases b; simp add: button_or_wheel_def win_defs)+

lemma exceeds_threshold_sint:
  "exceeds_threshold v \<longleftrightarrow> 2 < sint (if 0 \<le> sint v then v else - v)"
  by (simp add: exceeds_threshold_def ABS_def win_defs)

lemma buttons_down_in_update_sets:
  "buttons_down_in (update_buttons_down f d) = (buttons_down_in d \<union> buttons_down_in f) - buttons_up_in f"
proof -
  have "b \<in> buttons_down_in (update_buttons_down f d) \<longleftrightarrow>
        b \<in> (buttons_down_in d \<union> buttons_down_in f) - buttons_up_in f" for b
    by (cases b) (simp_all add: flag_bits bit_update_buttons_down)
  then show ?thesis by blast
qed

lemma exceeds_threshold_abs_sint:
  "exceeds_threshold v \<longleftrightarrow> 2 < \<bar>sint v\<bar> \<and> sint v \<noteq> - (2 ^ 31)"
  by (auto simp: exceeds_threshold_sint sint_uminus_long)

text \<open>C1: whenever the click timer is pending, no mouse button is held and the
  motion threshold has been passed since the last reset; this holds after every
  sequence of messages the window procedure can receive.\<close>

theorem timer_armed_only_idle_and_moved:
  "timers (dispatch ms (init_state dct)) TIMER_EVENT_ID \<noteq> None \<longrightarrow>
     usMouseButtonsDown (dispatch ms (init_state dct)) = 0 \<and> fOkToClick (dispatch ms (init_state dct))"
  using dispatch_wnd_inv [OF wnd_inv_init, of ms dct]
  by (simp add: wnd_inv_def timer_pending_def)

theorem timer_armed_only_idle_and_moved_witness:
  "timers (dispatch [WM_INPUT (motion_report 3 0)] (init_state 500)) TIMER_EVENT_ID \<noteq> None \<and>
   usMouseButtonsDown (dispatch [WM_INPUT (motion_report 3 0)] (init_state 500)) = 0 \<and>
   fOkToClick (dispatch [WM_INPUT (motion_report 3 0)] (init_state 500))"
proof -
  have "timers (dispatch [WM_INPUT (motion_report 3 0)] (init_state 500)) TIMER_EVENT_ID \<noteq> None"
    by (simp add: wnd_eval)
  with timer_armed_only_idle_and_moved [of "[WM_INPUT (motion_report 3 0)]" 500]
  show ?thesis by simp
qed

text \<open>C2: for a sequence of relative motion reports with no button or wheel flag,
  starting with no button held, not armed and no timer, the code arms exactly when
  some prefix of the sequence brings an accumulated delta past the threshold, and the
  timer is scheduled afterwards exactly when it is armed and \<^verbatim>\<open>SetTimer\<close> can create
  it: when the system refuses timers, motion never schedules one.\<close>

theorem motion_only_arming:
  assumes "\<forall>m \<in> set ms. \<not> button_or_wheel (ucast (usButtonFlags m))"
    and "usMouseButtonsDown s = 0" and "\<not> fOkToClick s" and "timers s TIMER_EVENT_ID = None"
  shows "(fOkToClick (fold relative_mouse_input ms s) \<longleftrightarrow>
            running_sum_exceeds (lLastClickDeltaX s) (lLastClickDeltaY s) ms) \<and>
         (timers (fold relative_mouse_input ms s) TIMER_EVENT_ID \<noteq> None \<longleftrightarrow>
            fOkToClick (fold relative_mouse_input ms s) \<and> \<not> set_timer_fails s)"
  using fold_motion_reports [OF assms(1,2)] assms(3,4)
  by (auto simp: timer_pending_def)

theorem motion_only_arming_witness:
  "(fOkToClick (fold relative_mouse_input
       (replicate 3 \<lparr>usFlags = 0, usButtonFlags = 0, lLastX = 1, lLastY = 0\<rparr>) (init_state 500)) \<longleftrightarrow>
     running_sum_exceeds 0 0 (replicate 3 \<lparr>usFlags = 0, usButtonFlags = 0, lLastX = 1, lLastY = 0\<rparr>)) \<and>
   running_sum_exceeds 0 0 (replicate 3 \<lparr>usFlags = 0, usButtonFlags = 0, lLastX = 1, lLastY = 0\<rparr>) \<and>
   \<not> running_sum_exceeds 0 0 (replicate 2 \<lparr>usFlags = 0, usButtonFlags = 0, lLastX = 1, lLastY = 0\<rparr>)"
proof -
  let ?m = "\<lparr>usFlags = 0, usButtonFlags = 0, lLastX = 1, lLastY = 0\<rparr> :: RAWMOUSE"
  have h1: "\<forall>m \<in> set (replicate 3 ?m). \<not> button_or_wheel (ucast (usButtonFlags m))"
    by (simp add: button_or_wheel_def)
  have h: "usMouseButtonsDown (init_state 500) = 0" "\<not> fOkToClick (init_state 500)"
    "timers (init_state 500) TIMER_EVENT_ID = None"
    by (simp_all add: init_state_def)
  have r3: "running_sum_exceeds 0 0 (replicate 3 ?m)"
    by (simp add: numeral_3_eq_3 running_sum_exceeds_Cons exceeds_threshold_def ABS_def win_defs)
  have r2: "\<not> running_sum_exceeds 0 0 (replicate 2 ?m)"
    by (simp add: numeral_2_eq_2 running_sum_exceeds_Cons exceeds_threshold_def ABS_def win_defs)
  have "lLastClickDeltaX (init_state 500) = 0" "lLastClickDeltaY (init_state 500) = 0"
    by (simp_all add: init_state_def)
  with motion_only_arming [OF h1 h] r3 r2 show ?thesis by simp
qed

text \<open>C3: a delivered relative report that carries a button transition or a
  vertical wheel turn cancels the timer, zeroes both accumulated deltas, disarms, and
  applies the report's down and up flags to the held-button mask, whatever the state.\<close>

theorem button_or_wheel_report_resets:
  assumes "accepted_report r" and "button_or_wheel (ucast (usButtonFlags (mouse (raw_data r))))"
  shows "timers (on_WM_INPUT r s) TIMER_EVENT_ID = None \<and>
    lLastClickDeltaX (on_WM_INPUT r s) = 0 \<and> lLastClickDeltaY (on_WM_INPUT r s) = 0 \<and>
    \<not> fOkToClick (on_WM_INPUT r s) \<and>
    usMouseButtonsDown (on_WM_INPUT r s) =
      update_buttons_down (ucast (usButtonFlags (mouse (raw_data r)))) (usMouseButtonsDown s) \<and>
    sent_input (on_WM_INPUT r s) = sent_input s"
  using assms by (simp add: on_WM_INPUT_accepted relative_mouse_input_button state_defs)

theorem button_or_wheel_report_resets_witness:
  "timers (on_WM_INPUT (button_report 1) (dispatch [WM_INPUT (motion_report 3 0)] (init_state 500)))
     TIMER_EVENT_ID = None \<and>
   usMouseButtonsDown (on_WM_INPUT (button_report 1) (dispatch [WM_INPUT (motion_report 3 0)] (init_state 500))) = 1"
proof -
  have h: "accepted_report (button_report 1)"
    "button_or_wheel (ucast (usButtonFlags (mouse (raw_data (button_report 1)))))"
    by (simp_all add: accepted_report_def wnd_eval)
  have "usMouseButtonsDown (dispatch [WM_INPUT (motion_report 3 0)] (init_state 500)) = 0"
    by (simp add: wnd_eval)
  with button_or_wheel_report_resets [OF h, of "dispatch [WM_INPUT (motion_report 3 0)] (init_state 500)"]
  show ?thesis by (simp add: wnd_eval)
qed

text \<open>C4: a \<^verbatim>\<open>WM_TIMER\<close> message appends exactly one left-button down and up pair to
  the synthesized input (nothing when input is blocked: the failure is swallowed),
  leaves no timer pending, and resets the deltas and the armed flag; the held-button
  mask is untouched.\<close>

theorem timer_fire_clicks_once:
  "sent_input (snd (WndProc (WM_TIMER i) s)) =
     sent_input s @ (if input_blocked s then [] else [MOUSEEVENTF_LEFTDOWN, MOUSEEVENTF_LEFTUP]) \<and>
   timers (snd (WndProc (WM_TIMER i) s)) TIMER_EVENT_ID = None \<and>
   lLastClickDeltaX (snd (WndProc (WM_TIMER i) s)) = 0 \<and>
   lLastClickDeltaY (snd (WndProc (WM_TIMER i) s)) = 0 \<and>
   \<not> fOkToClick (snd (WndProc (WM_TIMER i) s)) \<and>
   usMouseButtonsDown (snd (WndProc (WM_TIMER i) s)) = usMouseButtonsDown s"
  by (simp add: on_WM_TIMER_def state_defs)

text \<open>C5: in every run the operating system can deliver from the initial state
  (\<^verbatim>\<open>WM_TIMER\<close> only while its timer is set), the number of clicks injected is at
  most the number of messages that arm the timer from not pending: at most one click
  per arm-to-fire cycle.\<close>

theorem clicks_bounded_by_arms:
  "os_run ms (init_state dct) \<Longrightarrow> clicks (dispatch ms (init_state dct)) \<le> arm_count ms (init_state dct)"
  using dispatch_clicks [OF _ wnd_inv_init, of ms dct]
  by (simp add: init_state_def clicks_def timer_pending_def split: if_splits)

theorem clicks_bounded_by_arms_witness:
  "os_run [WM_INPUT (motion_report 3 0), WM_TIMER 1] (init_state 500) \<and>
   clicks (dispatch [WM_INPUT (motion_report 3 0), WM_TIMER 1] (init_state 500)) = 1 \<and>
   clicks (dispatch [WM_INPUT (motion_report 3 0), WM_TIMER 1] (init_state 500))
     \<le> arm_count [WM_INPUT (motion_report 3 0), WM_TIMER 1] (init_state 500)"
proof -
  have h: "os_run [WM_INPUT (motion_report 3 0), WM_TIMER 1] (init_state 500)"
    by (simp add: wnd_eval)
  have "clicks (dispatch [WM_INPUT (motion_report 3 0), WM_TIMER 1] (init_state 500)) = 1"
    by (simp add: wnd_eval clicks_def)
  with h clicks_bounded_by_arms [OF h] show ?thesis by simp
qed

text \<open>C6: the held-button update of lines 96--97 is the set update the spec
  describes: the buttons held afterwards are those held before or pressed in the
  report, minus those released in it.\<close>

theorem buttons_down_in_update:
  "buttons_down_in (update_buttons_down f d) = (buttons_down_in d \<union> buttons_down_in f) - buttons_up_in f"
  by (rule buttons_down_in_update_sets)

text \<open>C7: at most one timer of the window is ever set, the one with id
  \<open>TIMER_EVENT_ID\<close>: re-arming replaces it.\<close>

theorem single_timer: "dom (timers (dispatch ms (init_state dct))) \<subseteq> {TIMER_EVENT_ID}"
  using dispatch_wnd_inv [OF wnd_inv_init, of ms dct] by (simp add: wnd_inv_def)

text \<open>C8: the synthesized input is always a sequence of whole clicks, each a
  left-button down immediately followed by its up.\<close>

theorem clicks_are_pairs: "click_pairs (sent_input (dispatch ms (init_state dct)))"
  using dispatch_wnd_inv [OF wnd_inv_init, of ms dct] by (simp add: wnd_inv_def)

text \<open>C9: a \<^verbatim>\<open>WM_INPUT\<close> whose raw data cannot be read (size query failure,
  allocation failure, short copy), that is not mouse input, or that comes from an
  absolute-coordinate device changes nothing.\<close>

theorem failed_input_ignored:
  "\<not> accepted_report r \<Longrightarrow> snd (WndProc (WM_INPUT r) s) = s"
  by (simp add: on_WM_INPUT_accepted)

theorem failed_input_ignored_witness:
  "snd (WndProc (WM_INPUT ((motion_report 3 0)\<lparr>size_query_result := - 1\<rparr>)) (init_state 500))
     = init_state 500"
proof -
  have "\<not> accepted_report ((motion_report 3 0)\<lparr>size_query_result := - 1\<rparr>)"
    by (simp add: accepted_report_def motion_report_def)
  then show ?thesis by (rule failed_input_ignored)
qed

text \<open>C10: a motion report while no button is held and the engine is armed
  (re)schedules the one timer with the current double-click time, replacing any
  deadline it had; when \<^verbatim>\<open>SetTimer\<close> fails, the timers are left as they were.\<close>

theorem rearm_refreshes_deadline:
  "\<not> button_or_wheel (ucast (usButtonFlags m)) \<Longrightarrow> usMouseButtonsDown s = 0 \<Longrightarrow> fOkToClick s \<Longrightarrow>
   timers (relative_mouse_input m s) =
     (if set_timer_fails s then timers s else (timers s)(TIMER_EVENT_ID \<mapsto> double_click_time s))"
  by (simp add: relative_mouse_input_motion state_defs)

theorem rearm_refreshes_deadline_witness:
  "timers (relative_mouse_input \<lparr>usFlags = 0, usButtonFlags = 0, lLastX = 0, lLastY = 0\<rparr>
      ((init_state 500)\<lparr>fOkToClick := True, timers := [TIMER_EVENT_ID \<mapsto> 7]\<rparr>)) TIMER_EVENT_ID = Some 500"
proof -
  have "\<not> button_or_wheel (ucast (usButtonFlags \<lparr>usFlags = 0, usButtonFlags = 0, lLastX = 0, lLastY = 0\<rparr>))"
    by (simp add: button_or_wheel_def)
  from rearm_refreshes_deadline [OF this, of "(init_state 500)\<lparr>fOkToClick := True, timers := [TIMER_EVENT_ID \<mapsto> 7]\<rparr>"]
  show ?thesis by (simp add: init_state_def)
qed

text \<open>C11: the threshold test of line 77 holds exactly when the accumulated delta,
  read as a signed 32-bit value, has magnitude above 2, except at \<open>-2\<^sup>3\<^sup>1\<close>, where
  \<^verbatim>\<open>ABS\<close> overflows and the test fails.\<close>

theorem exceeds_threshold_iff:
  "exceeds_threshold v \<longleftrightarrow> 2 < \<bar>sint v\<bar> \<and> sint v \<noteq> - (2 ^ 31)"
  by (rule exceeds_threshold_abs_sint)

text \<open>C12: the horizontal-wheel flag (\<^verbatim>\<open>RI_MOUSE_HWHEEL\<close>, 0x0800) is missing
  from the mask of line 81, so adding it to any report changes nothing: the report is
  handled as the same report without it (motion re-arms the timer); adding the
  vertical-wheel flag (\<^verbatim>\<open>RI_MOUSE_WHEEL\<close>, 0x0400) to any report always cancels
  the timer and disarms.\<close>

theorem hwheel_ignored_wheel_resets:
  "relative_mouse_input (m\<lparr>usButtonFlags := usButtonFlags m OR 0x0800\<rparr>) s = relative_mouse_input m s \<and>
   timers (relative_mouse_input (m\<lparr>usButtonFlags := usButtonFlags m OR 0x0400\<rparr>) s) TIMER_EVENT_ID = None \<and>
   \<not> fOkToClick (relative_mouse_input (m\<lparr>usButtonFlags := usButtonFlags m OR 0x0400\<rparr>) s)"
  using relative_mouse_input_hwheel [of m s] button_or_wheel_wheel [of "usButtonFlags m"]
  by (simp add: relative_mouse_input_button state_defs)

text \<open>C21: in every reachable state the click timer is pending if and only if the
  engine is armed and no mouse button is held.\<close>

theorem reachable_timer_iff_armed_idle:
  "reachable dct s \<Longrightarrow> timer_pending s \<longleftrightarrow> fOkToClick s \<and> usMouseButtonsDown s = 0"
  using reachable_inv by blast

theorem reachable_timer_iff_armed_idle_witness:
  "timer_pending (snd (WndProc (WM_INPUT (motion_report 3 0)) (init_state 500)))"
proof -
  have r: "reachable 500 (snd (WndProc (WM_INPUT (motion_report 3 0)) (init_state 500)))"
    by (rule reachable_step [OF reachable_init]) simp
  have "fOkToClick (snd (WndProc (WM_INPUT (motion_report 3 0)) (init_state 500))) \<and>
      usMouseButtonsDown (snd (WndProc (WM_INPUT (motion_report 3 0)) (init_state 500))) = 0"
    by (simp add: wnd_eval)
  with reachable_timer_iff_armed_idle [OF r] show ?thesis by simp
qed

text \<open>C22: from every reachable state that is armed with no button held, the operating
  system can deliver the click timer's \<^verbatim>\<open>WM_TIMER\<close>, and handling it injects one
  more click, clears the timer, and leads to a reachable state.\<close>

theorem armed_idle_click_deliverable:
  assumes "reachable dct s" and "fOkToClick s" and "usMouseButtonsDown s = 0"
  shows "os_may_deliver (WM_TIMER TIMER_EVENT_ID) s \<and>
    reachable dct (snd (WndProc (WM_TIMER TIMER_EVENT_ID) s)) \<and>
    clicks (snd (WndProc (WM_TIMER TIMER_EVENT_ID) s)) = Suc (clicks s) \<and>
    \<not> timer_pending (snd (WndProc (WM_TIMER TIMER_EVENT_ID) s))"
proof -
  from reachable_inv [OF assms(1)] assms(2,3) have "timer_pending s" and nb: "\<not> input_blocked s"
    by simp_all
  then have d: "os_may_deliver (WM_TIMER TIMER_EVENT_ID) s" by (simp add: timer_pending_def)
  moreover from assms(1) d have "reachable dct (snd (WndProc (WM_TIMER TIMER_EVENT_ID) s))"
    by (rule reachable_step)
  ultimately show ?thesis using nb by (simp add: on_WM_TIMER_def clicks_def state_defs)
qed

theorem armed_idle_click_deliverable_witness:
  "clicks (snd (WndProc (WM_TIMER TIMER_EVENT_ID) (snd (WndProc (WM_INPUT (motion_report 3 0)) (init_state 500))))) = 1"
proof -
  have r: "reachable 500 (snd (WndProc (WM_INPUT (motion_report 3 0)) (init_state 500)))"
    by (rule reachable_step [OF reachable_init]) simp
  have "fOkToClick (snd (WndProc (WM_INPUT (motion_report 3 0)) (init_state 500))) \<and>
      usMouseButtonsDown (snd (WndProc (WM_INPUT (motion_report 3 0)) (init_state 500))) = 0 \<and>
      clicks (snd (WndProc (WM_INPUT (motion_report 3 0)) (init_state 500))) = 0"
    by (simp add: wnd_eval clicks_def)
  with armed_idle_click_deliverable [OF r] show ?thesis by simp
qed

text \<open>C24: when \<^verbatim>\<open>SetTimer\<close> fails, the failure is swallowed and the degraded
  outcome is the spec's: starting with no timer, no message sequence the system can
  deliver makes a timer or injects a click.\<close>

theorem timer_failure_no_click:
  "set_timer_fails s \<Longrightarrow> timers s = Map.empty \<Longrightarrow> os_run ms s \<Longrightarrow>
   clicks (dispatch ms s) = clicks s \<and> timers (dispatch ms s) = Map.empty"
proof (induction ms arbitrary: s)
  case Nil
  then show ?case by simp
next
  case (Cons msg ms)
  from Cons.prems have "timers (snd (WndProc msg s)) = Map.empty \<and> clicks (snd (WndProc msg s)) = clicks s"
    by (intro WndProc_no_timer) simp_all
  with Cons.prems Cons.IH [of "snd (WndProc msg s)"] show ?case by simp
qed

theorem timer_failure_no_click_witness:
  "clicks (dispatch [WM_INPUT (motion_report 3 0), WM_INPUT (motion_report 3 0)]
      ((init_state 500)\<lparr>set_timer_fails := True\<rparr>)) = 0"
proof -
  have h: "set_timer_fails ((init_state 500)\<lparr>set_timer_fails := True\<rparr>)"
    "timers ((init_state 500)\<lparr>set_timer_fails := True\<rparr>) = Map.empty"
    "os_run [WM_INPUT (motion_report 3 0), WM_INPUT (motion_report 3 0)] ((init_state 500)\<lparr>set_timer_fails := True\<rparr>)"
    by (simp_all add: init_state_def)
  from timer_failure_no_click [OF h] show ?thesis by (simp add: clicks_def init_state_def)
qed

text \<open>C25: the engine has no fallible operation of its own: its state after any message
  sequence is determined by its state before and the messages, whatever the timers,
  the injected input and the failures of the system calls are.\<close>

theorem engine_state_independent_of_os:
  "statics s = statics t \<Longrightarrow> statics (dispatch ms s) = statics (dispatch ms t)"
proof (induction ms arbitrary: s t)
  case (Cons msg ms)
  from Cons.prems have "statics (snd (WndProc msg s)) = statics (snd (WndProc msg t))"
    by (rule statics_WndProc)
  then show ?case unfolding dispatch.simps by (rule Cons.IH)
qed simp

theorem engine_state_independent_of_os_witness:
  "statics (dispatch [WM_INPUT (motion_report 3 0), WM_INPUT (motion_report 0 5)]
      ((init_state 500)\<lparr>set_timer_fails := True, input_blocked := True\<rparr>)) = (3, 5, True, 0)"
proof -
  have "statics ((init_state 500)\<lparr>set_timer_fails := True, input_blocked := True\<rparr>) = statics (init_state 500)"
    by (simp add: statics_def init_state_def)
  from engine_state_independent_of_os [OF this, of "[WM_INPUT (motion_report 3 0), WM_INPUT (motion_report 0 5)]"]
  show ?thesis by (simp add: statics_def wnd_eval)
qed

text \<open>C26: \<^verbatim>\<open>usMouseButtonsDown\<close> is declared \<^verbatim>\<open>UINT\<close> but named as a
  \<^verbatim>\<open>USHORT\<close>; in every run its value stays below \<open>2\<^sup>9\<close> (only the five down bits
  are ever set), so it fits the narrower type without loss.\<close>

theorem buttons_mask_fits_ushort:
  "usMouseButtonsDown (dispatch ms (init_state dct)) < 2 ^ 9 \<and>
   ucast (ucast (usMouseButtonsDown (dispatch ms (init_state dct))) :: USHORT) =
     usMouseButtonsDown (dispatch ms (init_state dct))"
proof -
  let ?w = "usMouseButtonsDown (dispatch ms (init_state dct))"
  have o: "only_down_bits ?w"
    using dispatch_wnd_inv [OF wnd_inv_init, of ms dct] by (simp add: wnd_inv_def)
  have small: "bit ?w n \<Longrightarrow> n < 9" for n
    using only_down_bits_bit [OF o, of n] by auto
  have t: "take_bit 9 ?w = ?w"
    by (rule bit_eqI) (auto simp: bit_take_bit_iff small)
  have "unat ?w < 2 ^ 9"
    using take_bit_nat_less_exp [of 9 "unat ?w"] unsigned_take_bit_eq [of 9 ?w, where ?'a = nat] t by simp
  then have lt: "?w < 2 ^ 9"
    by (simp add: word_less_nat_alt)
  have "ucast (ucast ?w :: USHORT) = ?w"
    by (rule bit_eqI) (auto simp: bit_ucast_iff dest: small)
  with lt show ?thesis by simp
qed

text \<open>C19: the spec's scenario 5 for every state and every button: a report pressing
  the button and then one releasing it (whatever motion they carry) leave the button
  released and the other held buttons as they were, nothing accumulated and the engine
  unarmed, so a following report without motion or flags schedules no timer.\<close>

theorem press_release_leaves_unarmed:
  assumes "ucast (usButtonFlags m1) = down_flag b" and "ucast (usButtonFlags m2) = up_flag b"
    and "usButtonFlags m3 = 0" and "lLastX m3 = 0" and "lLastY m3 = 0"
  shows "buttons_down_in (usMouseButtonsDown (relative_mouse_input m2 (relative_mouse_input m1 s))) =
           buttons_down_in (usMouseButtonsDown s) - {b} \<and>
         lLastClickDeltaX (relative_mouse_input m2 (relative_mouse_input m1 s)) = 0 \<and>
         lLastClickDeltaY (relative_mouse_input m2 (relative_mouse_input m1 s)) = 0 \<and>
         \<not> fOkToClick (relative_mouse_input m2 (relative_mouse_input m1 s)) \<and>
         timers (relative_mouse_input m3 (relative_mouse_input m2 (relative_mouse_input m1 s))) TIMER_EVENT_ID = None"
proof -
  let ?s1 = "relative_mouse_input m1 s" and ?s2 = "relative_mouse_input m2 (relative_mouse_input m1 s)"
  have s1: "?s1 = reset_click_tracking ((KillTimer TIMER_EVENT_ID (accumulate_motion m1 s))
      \<lparr>usMouseButtonsDown := update_buttons_down (down_flag b) (usMouseButtonsDown s)\<rparr>)"
    using assms(1) button_or_wheel_flag(1) [of b] by (simp add: relative_mouse_input_button)
  have s2: "?s2 = reset_click_tracking ((KillTimer TIMER_EVENT_ID (accumulate_motion m2 ?s1))
      \<lparr>usMouseButtonsDown := update_buttons_down (up_flag b) (usMouseButtonsDown ?s1)\<rparr>)"
    using assms(2) button_or_wheel_flag(2) [of b] by (simp add: relative_mouse_input_button)
  have b: "buttons_down_in (usMouseButtonsDown ?s2) = buttons_down_in (usMouseButtonsDown s) - {b}"
    using s1 s2 by (simp add: buttons_down_in_update_sets buttons_in_flag state_defs)
  have r: "lLastClickDeltaX ?s2 = 0 \<and> lLastClickDeltaY ?s2 = 0 \<and> \<not> fOkToClick ?s2 \<and> timers ?s2 TIMER_EVENT_ID = None"
    using s2 by (simp add: state_defs)
  have nb: "\<not> button_or_wheel (ucast (usButtonFlags m3))"
    using assms(3) by (simp add: button_or_wheel_def)
  have "\<not> fOkToClick (accumulate_motion m3 ?s2)"
    using r assms(4,5) by (simp add: exceeds_threshold_def ABS_def win_defs)
  then have "timers (relative_mouse_input m3 ?s2) TIMER_EVENT_ID = None"
    using r nb by (simp add: relative_mouse_input_motion)
  with b r show ?thesis by simp
qed

theorem press_release_leaves_unarmed_witness:
  "\<not> fOkToClick (relative_mouse_input \<lparr>usFlags = 0, usButtonFlags = 0x0002, lLastX = 0, lLastY = 0\<rparr>
      (relative_mouse_input \<lparr>usFlags = 0, usButtonFlags = 0x0001, lLastX = 7, lLastY = 0\<rparr>
        ((init_state 500)\<lparr>fOkToClick := True, lLastClickDeltaX := 9\<rparr>)))"
proof -
  have h: "ucast (usButtonFlags \<lparr>usFlags = 0, usButtonFlags = 0x0001, lLastX = 7, lLastY = 0\<rparr>) = down_flag Button1"
    "ucast (usButtonFlags \<lparr>usFlags = 0, usButtonFlags = 0x0002, lLastX = 0, lLastY = 0\<rparr>) = up_flag Button1"
    "usButtonFlags \<lparr>usFlags = 0, usButtonFlags = 0, lLastX = 0, lLastY = 0\<rparr> = 0"
    "lLastX \<lparr>usFlags = 0, usButtonFlags = 0, lLastX = 0, lLastY = 0\<rparr> = 0"
    "lLastY \<lparr>usFlags = 0, usButtonFlags = 0, lLastX = 0, lLastY = 0\<rparr> = 0"
    by (simp_all add: win_defs)
  from press_release_leaves_unarmed [OF h, of "(init_state 500)\<lparr>fOkToClick := True, lLastClickDeltaX := 9\<rparr>"]
  show ?thesis by simp
qed

end
