(* ===== verification/Win_Main.thy ===== *)
theory Win_Main
  imports Wnd_Proc
begin

text \<open>
  The bootstrap \<^verbatim>\<open>_tWinMain\<close> of \<^verbatim>\<open>src/MouseButtonClicker.cpp\<close> (lines 144--197):
  the single-instance mutex, the three registration steps, the diagnostic shown when
  one of them fails, and the message pump.  The operating system's answers are
  inputs: \<open>boot_env\<close> holds what the start-up calls return, and the pump consumes a
  list of \<^verbatim>\<open>GetMessage\<close> answers.  \<^verbatim>\<open>GetMessage\<close> returns a message (nonzero),
  0 for \<^verbatim>\<open>WM_QUIT\<close>, or -1 on error; the loop condition \<^verbatim>\<open>while (GetMessage(...))\<close>
  treats -1 as true, so the loop then dispatches the \<^verbatim>\<open>MSG\<close> buffer as it stands (the
  model takes an erroring call to leave the buffer unchanged).  A finite list of answers
  that ends without \<^verbatim>\<open>WM_QUIT\<close> is a process still running: the pump is structural
  recursion over the answers and needs no fuel.
\<close>

subsection \<open>Start-up answers and results\<close>

definition ERROR_ALREADY_EXISTS :: DWORD where [win_defs]: "ERROR_ALREADY_EXISTS = 183"

record boot_env =
  mutex_created :: bool
  error_after_mutex :: DWORD
  class_registered :: bool
  window_created :: bool
  raw_input_registered :: bool
  error_at_failure :: DWORD

datatype get_message = GM_MSG message | GM_QUIT int | GM_ERROR

datatype winmain_result =
  Exited int "string option" wnd_state
| Running wnd_state

subsection \<open>The diagnostic (lines 188--192)\<close>

text \<open>\<^verbatim>\<open>%d\<close> of a \<^verbatim>\<open>DWORD\<close>: its bits read as a signed \<^verbatim>\<open>int\<close>, in decimal.\<close>

fun decimal_digits :: "nat \<Rightarrow> string" where
  "decimal_digits n =
     (if n < 10 then [char_of (48 + n)] else decimal_digits (n div 10) @ [char_of (48 + n mod 10)])"

definition format_d :: "DWORD \<Rightarrow> string" where
  "format_d e = (if sint e < 0 then ''-'' @ decimal_digits (nat (- sint e)) else decimal_digits (nat (sint e)))"

definition diagnostic_text :: "DWORD \<Rightarrow> string" where
  "diagnostic_text e = ''Initialization failure. GetLastError='' @ format_d e @ [CHR 0x0D, CHR 0x0A]"

text \<open>\<^verbatim>\<open>StringCchPrintf\<close> into \<^verbatim>\<open>TCHAR szMessage[64]\<close>: it succeeds when the text and
  its terminating NUL fit, and the message box is shown only then.\<close>

definition StringCchPrintf :: "nat \<Rightarrow> string \<Rightarrow> string option" where
  "StringCchPrintf cchDest text = (if length text < cchDest then Some text else None)"

subsection \<open>The message pump (lines 174--182)\<close>

fun pump :: "get_message list \<Rightarrow> message \<Rightarrow> wnd_state \<Rightarrow> int option \<times> wnd_state" where
  "pump [] msg s = (None, s)"
| "pump (GM_QUIT wParam # answers) msg s = (Some wParam, s)"
| "pump (GM_MSG m # answers) msg s = pump answers m (snd (WndProc m s))"
| "pump (GM_ERROR # answers) msg s = pump answers msg (snd (WndProc msg s))"

subsection \<open>\<^verbatim>\<open>_tWinMain\<close>\<close>

text \<open>\<^verbatim>\<open>MSG msg = {0}\<close>: the buffer starts as message 0 (\<^verbatim>\<open>WM_NULL\<close>), which
  \<^verbatim>\<open>WndProc\<close> passes to \<^verbatim>\<open>DefWindowProc\<close>.\<close>

definition tWinMain :: "boot_env \<Rightarrow> get_message list \<Rightarrow> UINT \<Rightarrow> winmain_result" where
  "tWinMain env answers dct =
     (if mutex_created env \<and> ERROR_ALREADY_EXISTS \<noteq> error_after_mutex env then
        (if class_registered env \<and> window_created env \<and> raw_input_registered env then
           (case pump answers (WM_OTHER 0) (init_state dct) of
              (Some wParam, s) \<Rightarrow> Exited wParam None s
            | (None, s) \<Rightarrow> Running s)
         else Exited 0 (StringCchPrintf 64 (diagnostic_text (error_at_failure env))) (init_state dct))
      else Exited 0 None (init_state dct))"

text \<open>Start-up where every call succeeds, used by the examples.\<close>

definition boot_ok :: boot_env where
  "boot_ok = \<lparr>mutex_created = True, error_after_mutex = 0, class_registered = True,
     window_created = True, raw_input_registered = True, error_at_failure = 0\<rparr>"

text \<open>The answers the operating system can give the pump: \<^verbatim>\<open>WM_QUIT\<close> only once
  \<^verbatim>\<open>PostQuitMessage\<close> has posted it, carrying the posted exit code; a message only
  when the system may deliver it (\<open>os_may_deliver\<close>); an error at any time.\<close>

fun os_answers_ok :: "get_message list \<Rightarrow> message \<Rightarrow> wnd_state \<Rightarrow> bool" where
  "os_answers_ok [] msg s = True"
| "os_answers_ok (GM_QUIT w # answers) msg s = (quit_posted s = Some w)"
| "os_answers_ok (GM_MSG m # answers) msg s = (os_may_deliver m s \<and> os_answers_ok answers m (snd (WndProc m s)))"
| "os_answers_ok (GM_ERROR # answers) msg s = os_answers_ok answers msg (snd (WndProc msg s))"

text \<open>The messages the loop hands to \<^verbatim>\<open>DispatchMessage\<close>, in order: each
  retrieved message, and the buffer's message again after an error answer; and the
  window state a run of \<^verbatim>\<open>_tWinMain\<close> ends in, or is in while still running.\<close>

fun dispatched :: "get_message list \<Rightarrow> message \<Rightarrow> message list" where
  "dispatched [] msg = []"
| "dispatched (GM_QUIT wParam # answers) msg = []"
| "dispatched (GM_MSG m # answers) msg = m # dispatched answers m"
| "dispatched (GM_ERROR # answers) msg = msg # dispatched answers msg"

fun final_state :: "winmain_result \<Rightarrow> wnd_state" where
  "final_state (Exited code text s) = s"
| "final_state (Running s) = s"

subsection \<open>Lemmas\<close>

declare decimal_digits.simps [simp del]

lemma length_decimal_digits: "n < 10 ^ k \<Longrightarrow> 0 < k \<Longrightarrow> length (decimal_digits n) \<le> k"
proof (induction n arbitrary: k rule: decimal_digits.induct)
  case (1 n)
  show ?case
  proof (cases "n < 10")
    case True
    with "1.prems" show ?thesis by (simp add: decimal_digits.simps)
  next
    case False
    have k: "1 < k"
    proof (rule ccontr)
      assume "\<not> 1 < k"
      with "1.prems" have "k = 1" by simp
      with "1.prems" False show False by simp
    qed
    with "1.prems" have "n div 10 < 10 ^ (k - 1)"
      by (cases k) (auto simp: div_less_iff_less_mult mult.commute)
    with k False "1.IH" have "length (decimal_digits (n div 10)) \<le> k - 1" by simp
    with False k show ?thesis by (simp add: decimal_digits.simps [of n])
  qed
qed

lemma length_format_d: "length (format_d e) \<le> 11"
proof -
  have lo: "- (2 ^ 31) \<le> sint e" and hi: "sint e < 2 ^ 31"
    using sint_ge [of e] sint_lt [of e] by simp_all
  have "nat (- sint e) < 10 ^ 10" "nat (sint e) < 10 ^ 10"
    using lo hi by simp_all
  then show ?thesis
    using length_decimal_digits [of "nat (- sint e)" 10] length_decimal_digits [of "nat (sint e)" 10]
    by (simp add: format_d_def)
qed

lemma pump_GM_MSG: "pump (map GM_MSG ms @ rest) msg s = pump rest (last (msg # ms)) (dispatch ms s)"
  by (induction ms arbitrary: msg s) simp_all

lemma length_diagnostic_text: "length (diagnostic_text e) \<le> 50"
  using length_format_d [of e] by (simp add: diagnostic_text_def)

lemma quit_posted_WndProc:
  "quit_posted (snd (WndProc m s)) = (if m = WM_DESTROY then Some 0 else quit_posted s)"
proof (cases m)
  case (WM_INPUT r)
  then show ?thesis
    by (simp add: on_WM_INPUT_accepted relative_mouse_input_def Let_def state_defs)
qed (simp_all add: on_WM_TIMER_def state_defs)

lemma pump_exit:
  assumes "os_answers_ok answers msg s" and "quit_posted s \<in> {None, Some 0}"
    and "pump answers msg s = (Some w, s')"
  shows "w = 0 \<and> quit_posted s' = Some 0 \<and>
    (quit_posted s = None \<longrightarrow> WM_DESTROY \<in> set (dispatched answers msg))"
  using assms
proof (induction answers msg s rule: pump.induct)
  case (3 m answers msg s)
  let ?t = "snd (WndProc m s)"
  from "3.prems" have "quit_posted ?t \<in> {None, Some 0}"
    by (auto simp: quit_posted_WndProc)
  with "3.prems" "3.IH" have "w = 0 \<and> quit_posted s' = Some 0 \<and>
      (quit_posted ?t = None \<longrightarrow> WM_DESTROY \<in> set (dispatched answers m))"
    by simp
  then show ?case by (auto simp: quit_posted_WndProc split: if_splits)
next
  case (4 answers msg s)
  let ?t = "snd (WndProc msg s)"
  from "4.prems" have "quit_posted ?t \<in> {None, Some 0}"
    by (auto simp: quit_posted_WndProc)
  with "4.prems" "4.IH" have "w = 0 \<and> quit_posted s' = Some 0 \<and>
      (quit_posted ?t = None \<longrightarrow> WM_DESTROY \<in> set (dispatched answers msg))"
    by simp
  then show ?case by (auto simp: quit_posted_WndProc split: if_splits)
qed auto

lemma pump_returns:
  "GM_QUIT w \<in> set answers \<Longrightarrow> \<exists>w' s'. pump answers msg s = (Some w', s') \<and> GM_QUIT w' \<in> set answers"
  by (induction answers msg s rule: pump.induct) auto

lemma pump_dispatched: "snd (pump answers msg s) = dispatch (dispatched answers msg) s"
  by (induction answers msg s rule: pump.induct) simp_all

text \<open>C13: when the mutex cannot be created or already exists (a second instance),
  \<^verbatim>\<open>_tWinMain\<close> returns 0 at once: no window, no diagnostic, no message handled.\<close>

theorem no_mutex_exits_silently:
  "\<not> (mutex_created env \<and> error_after_mutex env \<noteq> ERROR_ALREADY_EXISTS) \<Longrightarrow>
   tWinMain env answers dct = Exited 0 None (init_state dct)"
  by (auto simp: tWinMain_def)

theorem no_mutex_exits_silently_witness:
  "tWinMain (boot_ok\<lparr>error_after_mutex := ERROR_ALREADY_EXISTS\<rparr>) [GM_MSG (WM_TIMER 1)] 500
     = Exited 0 None (init_state 500) \<and>
   tWinMain (boot_ok\<lparr>mutex_created := False\<rparr>) [GM_MSG (WM_TIMER 1)] 500 = Exited 0 None (init_state 500)"
proof -
  have "\<not> (mutex_created (boot_ok\<lparr>error_after_mutex := ERROR_ALREADY_EXISTS\<rparr>) \<and>
      error_after_mutex (boot_ok\<lparr>error_after_mutex := ERROR_ALREADY_EXISTS\<rparr>) \<noteq> ERROR_ALREADY_EXISTS)"
    "\<not> (mutex_created (boot_ok\<lparr>mutex_created := False\<rparr>) \<and>
      error_after_mutex (boot_ok\<lparr>mutex_created := False\<rparr>) \<noteq> ERROR_ALREADY_EXISTS)"
    by (simp_all add: boot_ok_def)
  then show ?thesis by (simp add: no_mutex_exits_silently)
qed

text \<open>C14: when this is the first instance but registering the class, creating the
  window or registering for raw input fails, \<^verbatim>\<open>_tWinMain\<close> shows the diagnostic
  naming the error code and returns 0; the formatted text always fits the 64-character
  buffer, so the diagnostic is never lost to a \<^verbatim>\<open>StringCchPrintf\<close> failure.\<close>

theorem init_failure_shows_diagnostic:
  "mutex_created env \<Longrightarrow> error_after_mutex env \<noteq> ERROR_ALREADY_EXISTS \<Longrightarrow>
   \<not> (class_registered env \<and> window_created env \<and> raw_input_registered env) \<Longrightarrow>
   tWinMain env answers dct = Exited 0 (Some (diagnostic_text (error_at_failure env))) (init_state dct)"
  using length_diagnostic_text [of "error_at_failure env"]
  by (auto simp: tWinMain_def StringCchPrintf_def)

theorem init_failure_shows_diagnostic_witness:
  "tWinMain (boot_ok\<lparr>window_created := False, error_at_failure := 1400\<rparr>) [] 500 =
     Exited 0 (Some (''Initialization failure. GetLastError=1400'' @ [CHR 0x0D, CHR 0x0A])) (init_state 500)"
proof -
  have h: "mutex_created (boot_ok\<lparr>window_created := False, error_at_failure := 1400\<rparr>)"
    "error_after_mutex (boot_ok\<lparr>window_created := False, error_at_failure := 1400\<rparr>) \<noteq> ERROR_ALREADY_EXISTS"
    "\<not> (class_registered (boot_ok\<lparr>window_created := False, error_at_failure := 1400\<rparr>) \<and>
        window_created (boot_ok\<lparr>window_created := False, error_at_failure := 1400\<rparr>) \<and>
        raw_input_registered (boot_ok\<lparr>window_created := False, error_at_failure := 1400\<rparr>))"
    by (simp_all add: boot_ok_def win_defs)
  have "diagnostic_text 1400 = (''Initialization failure. GetLastError=1400'' @ [CHR 0x0D, CHR 0x0A])"
    by code_simp
  with init_failure_shows_diagnostic [OF h, of "[]" 500] show ?thesis
    by (simp add: boot_ok_def)
qed

text \<open>C15: once started, \<^verbatim>\<open>_tWinMain\<close> hands the messages \<^verbatim>\<open>GetMessage\<close>
  retrieves to \<^verbatim>\<open>WndProc\<close> one at a time, in order, and returns the \<^verbatim>\<open>wParam\<close> of
  \<^verbatim>\<open>WM_QUIT\<close>; without \<^verbatim>\<open>WM_QUIT\<close> it is still running in the state the
  messages produced.\<close>

theorem pump_runs_engine:
  assumes "mutex_created env" and "error_after_mutex env \<noteq> ERROR_ALREADY_EXISTS"
    and "class_registered env" and "window_created env" and "raw_input_registered env"
  shows "tWinMain env (map GM_MSG ms @ [GM_QUIT w]) dct = Exited w None (dispatch ms (init_state dct)) \<and>
         tWinMain env (map GM_MSG ms) dct = Running (dispatch ms (init_state dct))"
proof -
  have "pump (map GM_MSG ms @ [GM_QUIT w]) (WM_OTHER 0) (init_state dct) =
      (Some w, dispatch ms (init_state dct))"
    by (simp add: pump_GM_MSG)
  moreover have "pump (map GM_MSG ms @ []) (WM_OTHER 0) (init_state dct) =
      (None, dispatch ms (init_state dct))"
    by (simp only: pump_GM_MSG) simp
  ultimately show ?thesis using assms by (simp add: tWinMain_def)
qed

theorem pump_runs_engine_witness:
  "tWinMain boot_ok [GM_MSG WM_DESTROY, GM_QUIT 0] 500 = Exited 0 None (dispatch [WM_DESTROY] (init_state 500)) \<and>
   quit_posted (dispatch [WM_DESTROY] (init_state 500)) = Some 0"
proof -
  have h: "mutex_created boot_ok" "error_after_mutex boot_ok \<noteq> ERROR_ALREADY_EXISTS"
    "class_registered boot_ok" "window_created boot_ok" "raw_input_registered boot_ok"
    by (simp_all add: boot_ok_def win_defs)
  from pump_runs_engine [OF h, of "[WM_DESTROY]" 0 500] show ?thesis
    by (simp add: PostQuitMessage_def init_state_def)
qed

text \<open>C16: \<^verbatim>\<open>while (GetMessage(...))\<close> treats the error result -1 as true and
  dispatches the \<^verbatim>\<open>MSG\<close> buffer again: after any sequence of messages ending in a
  \<^verbatim>\<open>WM_TIMER\<close>, one \<^verbatim>\<open>GetMessage\<close> error hands that \<^verbatim>\<open>WM_TIMER\<close> to the
  window procedure a second time, which injects one more click although no timer is
  pending: a click that no motion armed.\<close>

theorem getmessage_error_extra_click:
  assumes "mutex_created env" and "error_after_mutex env \<noteq> ERROR_ALREADY_EXISTS"
    and "class_registered env" and "window_created env" and "raw_input_registered env"
  shows "tWinMain env (map GM_MSG (ms @ [WM_TIMER i]) @ [GM_ERROR]) dct =
           Running (snd (WndProc (WM_TIMER i) (dispatch (ms @ [WM_TIMER i]) (init_state dct)))) \<and>
         \<not> timer_pending (dispatch (ms @ [WM_TIMER i]) (init_state dct)) \<and>
         clicks (snd (WndProc (WM_TIMER i) (dispatch (ms @ [WM_TIMER i]) (init_state dct)))) =
           Suc (clicks (dispatch (ms @ [WM_TIMER i]) (init_state dct)))"
proof -
  let ?s = "dispatch (ms @ [WM_TIMER i]) (init_state dct)"
  have "pump (map GM_MSG (ms @ [WM_TIMER i]) @ [GM_ERROR]) (WM_OTHER 0) (init_state dct) =
      (None, snd (WndProc (WM_TIMER i) ?s))"
    by (simp only: pump_GM_MSG) simp
  moreover have "\<not> timer_pending ?s"
    by (simp add: dispatch_append on_WM_TIMER_def state_defs)
  moreover have "\<not> input_blocked ?s" by (simp add: init_state_def)
  ultimately show ?thesis
    using assms by (simp add: tWinMain_def on_WM_TIMER_def state_defs clicks_def)
qed

theorem getmessage_error_extra_click_witness:
  "tWinMain boot_ok [GM_MSG (WM_INPUT (motion_report 3 0)), GM_MSG (WM_TIMER 1), GM_ERROR] 500 =
     Running (snd (WndProc (WM_TIMER 1) (dispatch [WM_INPUT (motion_report 3 0), WM_TIMER 1] (init_state 500)))) \<and>
   clicks (snd (WndProc (WM_TIMER 1) (dispatch [WM_INPUT (motion_report 3 0), WM_TIMER 1] (init_state 500)))) = 2"
proof -
  have h: "mutex_created boot_ok" "error_after_mutex boot_ok \<noteq> ERROR_ALREADY_EXISTS"
    "class_registered boot_ok" "window_created boot_ok" "raw_input_registered boot_ok"
    by (simp_all add: boot_ok_def win_defs)
  have c: "clicks (dispatch [WM_INPUT (motion_report 3 0), WM_TIMER 1] (init_state 500)) = 1"
    by (simp add: clicks_def wnd_eval)
  from getmessage_error_extra_click [OF h, of "[WM_INPUT (motion_report 3 0)]" 1 500] c show ?thesis
    by simp
qed

text \<open>C23: once started, \<^verbatim>\<open>_tWinMain\<close> returns only after its loop has handed
  \<^verbatim>\<open>WM_DESTROY\<close> to the window procedure (the only message whose handling posts the
  quit request), and it returns 0, the exit code that \<^verbatim>\<open>PostQuitMessage(0)\<close> posts
  and \<^verbatim>\<open>msg.wParam\<close> carries.\<close>

theorem winmain_exits_after_destroy:
  assumes "mutex_created env" and "error_after_mutex env \<noteq> ERROR_ALREADY_EXISTS"
    and "class_registered env" and "window_created env" and "raw_input_registered env"
    and "os_answers_ok answers (WM_OTHER 0) (init_state dct)"
    and "tWinMain env answers dct = Exited w txt s"
  shows "w = 0 \<and> txt = None \<and> quit_posted s = Some 0 \<and> WM_DESTROY \<in> set (dispatched answers (WM_OTHER 0))"
proof -
  obtain r s' where p: "pump answers (WM_OTHER 0) (init_state dct) = (r, s')" by fastforce
  with assms(1-5,7) have "r = Some w" and "txt = None" and "s' = s"
    by (auto simp: tWinMain_def split: option.splits)
  moreover have "quit_posted (init_state dct) = None" by (simp add: init_state_def)
  ultimately show ?thesis using pump_exit [OF assms(6)] p by auto
qed

theorem winmain_exits_after_destroy_witness:
  "tWinMain boot_ok [GM_MSG (WM_INPUT (motion_report 3 0)), GM_MSG WM_DESTROY, GM_QUIT 0] 500 =
     Exited 0 None (dispatch [WM_INPUT (motion_report 3 0), WM_DESTROY] (init_state 500)) \<and>
   quit_posted (dispatch [WM_INPUT (motion_report 3 0), WM_DESTROY] (init_state 500)) = Some 0"
proof -
  have h: "mutex_created boot_ok" "error_after_mutex boot_ok \<noteq> ERROR_ALREADY_EXISTS"
    "class_registered boot_ok" "window_created boot_ok" "raw_input_registered boot_ok"
    by (simp_all add: boot_ok_def win_defs)
  have a: "os_answers_ok [GM_MSG (WM_INPUT (motion_report 3 0)), GM_MSG WM_DESTROY, GM_QUIT 0]
      (WM_OTHER 0) (init_state 500)"
    by (simp add: init_state_def os_call_defs)
  have e: "tWinMain boot_ok [GM_MSG (WM_INPUT (motion_report 3 0)), GM_MSG WM_DESTROY, GM_QUIT 0] 500 =
     Exited 0 None (dispatch [WM_INPUT (motion_report 3 0), WM_DESTROY] (init_state 500))"
    using h by (simp add: tWinMain_def)
  from winmain_exits_after_destroy [OF h a e] e show ?thesis by blast
qed

text \<open>C27: the message loop terminates: once started, if \<^verbatim>\<open>GetMessage\<close> ever
  answers \<^verbatim>\<open>WM_QUIT\<close>, \<^verbatim>\<open>_tWinMain\<close> returns, with the \<^verbatim>\<open>wParam\<close> of a
  \<^verbatim>\<open>WM_QUIT\<close> it was given.\<close>

theorem message_loop_terminates:
  assumes "mutex_created env" and "error_after_mutex env \<noteq> ERROR_ALREADY_EXISTS"
    and "class_registered env" and "window_created env" and "raw_input_registered env"
    and "GM_QUIT w \<in> set answers"
  shows "\<exists>w' s. tWinMain env answers dct = Exited w' None s \<and> GM_QUIT w' \<in> set answers"
proof -
  obtain w' s' where "pump answers (WM_OTHER 0) (init_state dct) = (Some w', s')"
    and "GM_QUIT w' \<in> set answers"
    using pump_returns [OF assms(6)] by blast
  with assms(1-5) show ?thesis by (auto simp: tWinMain_def)
qed

theorem message_loop_terminates_witness:
  "\<exists>w' s. tWinMain boot_ok [GM_MSG (WM_INPUT (motion_report 3 0)), GM_ERROR, GM_QUIT 0, GM_MSG WM_DESTROY] 500 =
     Exited w' None s"
proof -
  have h: "mutex_created boot_ok" "error_after_mutex boot_ok \<noteq> ERROR_ALREADY_EXISTS"
    "class_registered boot_ok" "window_created boot_ok" "raw_input_registered boot_ok"
    "GM_QUIT 0 \<in> set [GM_MSG (WM_INPUT (motion_report 3 0)), GM_ERROR, GM_QUIT 0, GM_MSG WM_DESTROY]"
    by (simp_all add: boot_ok_def win_defs)
  from message_loop_terminates [OF h, of 500] show ?thesis by blast
qed

end
