(* ===== verification/Abstract_Engine.thy ===== *)
theory Abstract_Engine
  imports Raw_Input
begin

text \<open>
  The click decision engine as the specification describes it (spec.md, sections 3
  and 4.1): a debounce state of unbounded integer accumulations, an armed flag, the set
  of held buttons and a pending-timer flag, with one operation per event kind.  This is
  the contract the window procedure is proved to implement (the refinement theorem of
  \<open>Spec2Isabelle\<close>); it is not a translation of code.
\<close>

record engine =
  accumDeltaX :: int
  accumDeltaY :: int
  motionArmed :: bool
  buttonsDown :: "button set"
  pendingTimer :: bool

datatype event = Motion int int | ButtonOrWheel "button set" "button set" bool | TimerFire

definition THRESHOLD :: int where "THRESHOLD = 2"

definition engine_init :: engine where
  "engine_init = \<lparr>accumDeltaX = 0, accumDeltaY = 0, motionArmed = False, buttonsDown = {},
     pendingTimer = False\<rparr>"

text \<open>\<^verbatim>\<open>onMotion\<close>: accumulate, arm monotonically, (re)schedule when no button is held.\<close>

definition onMotion :: "int \<Rightarrow> int \<Rightarrow> engine \<Rightarrow> engine" where
  "onMotion dx dy e =
     (let x = accumDeltaX e + dx; y = accumDeltaY e + dy;
          armed = motionArmed e \<or> THRESHOLD < \<bar>x\<bar> \<or> THRESHOLD < \<bar>y\<bar>
      in e\<lparr>accumDeltaX := x, accumDeltaY := y, motionArmed := armed,
           pendingTimer := pendingTimer e \<or> (buttonsDown e = {} \<and> armed)\<rparr>)"

text \<open>\<^verbatim>\<open>onButtonOrWheelEvent\<close>: cancel, update the held buttons, reset.\<close>

definition onButtonOrWheelEvent :: "button set \<Rightarrow> button set \<Rightarrow> bool \<Rightarrow> engine \<Rightarrow> engine" where
  "onButtonOrWheelEvent downs ups isWheel e =
     e\<lparr>pendingTimer := False, buttonsDown := (buttonsDown e \<union> downs) - ups,
       accumDeltaX := 0, accumDeltaY := 0, motionArmed := False\<rparr>"

text \<open>\<^verbatim>\<open>onTimerFire\<close>: cancel, emit one click (the \<open>True\<close> of the result), reset.\<close>

definition onTimerFire :: "engine \<Rightarrow> engine \<times> bool" where
  "onTimerFire e =
     (e\<lparr>pendingTimer := False, accumDeltaX := 0, accumDeltaY := 0, motionArmed := False\<rparr>, True)"

fun engine_step :: "event \<Rightarrow> engine \<Rightarrow> engine \<times> bool" where
  "engine_step (Motion dx dy) e = (onMotion dx dy e, False)"
| "engine_step (ButtonOrWheel downs ups w) e = (onButtonOrWheelEvent downs ups w e, False)"
| "engine_step TimerFire e = onTimerFire e"

text \<open>The spec's invariant: the timer is pending only with no button held and armed.\<close>

definition engine_inv :: "engine \<Rightarrow> bool" where
  "engine_inv e \<longleftrightarrow> (pendingTimer e \<longrightarrow> buttonsDown e = {} \<and> motionArmed e)"

lemma engine_inv_init: "engine_inv engine_init"
  by (simp add: engine_inv_def engine_init_def)

lemma engine_step_inv: "engine_inv e \<Longrightarrow> engine_inv (fst (engine_step ev e))"
  by (cases ev) (auto simp: engine_inv_def onMotion_def onButtonOrWheelEvent_def onTimerFire_def Let_def)

end
