(* ===== verification/Spec2Isabelle.thy ===== *)
theory Spec2Isabelle
  imports Win_Main Abstract_Engine
begin

text \<open>
  \<^bold>\<open>MouseButtonClicker in Isabelle/HOL.\<close>
  The program (\<^verbatim>\<open>src/MouseButtonClicker.cpp\<close>, one file) clicks the primary mouse
  button when the pointer stops after having moved.  It has two parts:
  \<^item> the click decision engine, the window procedure \<^verbatim>\<open>WndProc\<close> (lines 38--141),
    whose function-local statics \<^verbatim>\<open>lLastClickDeltaX\<close>, \<^verbatim>\<open>lLastClickDeltaY\<close>,
    \<^verbatim>\<open>fOkToClick\<close> and \<^verbatim>\<open>usMouseButtonsDown\<close> are the whole program state; it
    handles \<^verbatim>\<open>WM_INPUT\<close> (raw mouse reports), \<^verbatim>\<open>WM_TIMER\<close> (the click delay
    expired) and \<^verbatim>\<open>WM_DESTROY\<close>;
  \<^item> the bootstrap \<^verbatim>\<open>_tWinMain\<close> (lines 144--197): single-instance mutex, window
    class and message-only window, raw-input registration, the message pump.
  They interact through the Win32 message queue (the pump dispatches each message to
  \<^verbatim>\<open>WndProc\<close>) and through the operating system's timers and input stream, which
  \<^verbatim>\<open>WndProc\<close> drives with \<^verbatim>\<open>SetTimer\<close>, \<^verbatim>\<open>KillTimer\<close> and \<^verbatim>\<open>SendInput\<close>.

  \<^bold>\<open>Theories.\<close>
  \<^item> \<open>Prelude\<close>: the Win32 integer types as words (\<^verbatim>\<open>LONG\<close>, \<^verbatim>\<open>UINT\<close>,
    \<^verbatim>\<open>DWORD\<close> = 32 bits, \<^verbatim>\<open>USHORT\<close> = 16 bits), the collections \<open>win_defs\<close> and
    \<open>flag_bits\<close>, and generic bit and bounded-quantifier lemmas.
  \<^item> \<open>Raw_Input\<close>: the SDK flag constants, the source's masks and compile-time
    assertions (lines 18--27), the \<^verbatim>\<open>RAWINPUT\<close> fields read, the outcome of the
    fallible raw-input calls, and the abstraction of a button bitmask to a set of
    buttons.  \<open>compile_time_asserts_hold\<close> is the conjunction of the six
    \<^verbatim>\<open>COMPILE_TIME_ASSERT\<close>s, and the lemma \<open>compile_time_asserts\<close> that it holds.
  \<^item> \<open>Win_Os\<close>: the operating-system state the program acts on (timers by id, the
    synthesized input stream, the quit request, the double-click time, and whether
    \<^verbatim>\<open>SetTimer\<close> and \<^verbatim>\<open>SendInput\<close> currently fail) and the calls on it.  Not
    repository code: modelled from the Win32 documentation.  A failing call leaves
    the state unchanged, and the source discards both results.
  \<^item> \<open>Wnd_Proc\<close>: \<^verbatim>\<open>WndProc\<close>.  \<open>wnd_state\<close> extends the OS state with the four
    statics; \<open>accumulate_motion\<close> (lines 72--77), \<open>relative_mouse_input\<close>
    (69--103), \<open>on_WM_INPUT\<close> (48--112), \<open>on_WM_TIMER\<close> (114--130) and
    \<open>WndProc\<close> (38--141) follow the code branch for branch; \<open>dispatch\<close> runs a
    message sequence.  Its lemmas: the bitmask update against the button set, the
    invariant \<open>wnd_inv\<close> (at most the one click timer; only down bits in the
    button mask; a pending timer only when idle and armed; clicks sent as down/up
    pairs) kept by every message, and the claims C1--C12 on arming, resetting,
    clicking, counting clicks, the failed-fetch path, the threshold bound and the
    wheel flags, and C19, the spec's scenario 5 for every state and button.
    \<open>reachable\<close> is the state machine as an inductive step relation (the
    initial state; one more message the system may deliver): C21 proves by rule
    induction that the timer is pending exactly when armed and idle, and C22 that such
    a state always has a deliverable timer message that clicks.  C24 and C25 are the
    failure paths of the system calls: no click when \<^verbatim>\<open>SetTimer\<close> fails, and the
    statics never depend on those failures.  C26: the button mask fits the
    \<^verbatim>\<open>USHORT\<close> its name promises.
  \<^item> \<open>Win_Main\<close>: \<^verbatim>\<open>_tWinMain\<close> (lines 144--197).  \<open>boot_env\<close> holds the
    answers of the mutex, class, window and raw-input calls; \<open>pump\<close> is the
    \<^verbatim>\<open>GetMessage\<close> loop (lines 174--182) over the list of answers \<^verbatim>\<open>GetMessage\<close>
    gives, where an error answer (-1) dispatches the previous \<^verbatim>\<open>MSG\<close> again;
    \<open>diagnostic_text\<close>, \<open>format_d\<close> and \<open>StringCchPrintf\<close> model the failure
    message of lines 186--192; \<open>os_answers_ok\<close> says which answer lists the
    system can give (\<^verbatim>\<open>WM_QUIT\<close> only after \<^verbatim>\<open>PostQuitMessage\<close>), and
    \<open>dispatched\<close> lists the messages the loop hands to \<^verbatim>\<open>DispatchMessage\<close>.  Claims
    C13--C16, C23 (a started program exits only after the loop dispatched
    \<^verbatim>\<open>WM_DESTROY\<close>, and returns 0) and C27 (the loop returns once
    \<^verbatim>\<open>GetMessage\<close> answers \<^verbatim>\<open>WM_QUIT\<close>).
  \<^item> \<open>Abstract_Engine\<close>: the specification's engine (\<^verbatim>\<open>onMotion\<close>,
    \<^verbatim>\<open>onButtonOrWheelEvent\<close>, \<^verbatim>\<open>onTimerFire\<close>) over unbounded integers and button
    sets, with its own invariant.  It is the contract, not a translation of code.
  \<^item> this theory: the abstraction \<open>engine_rel\<close> from the window state to the
    abstract engine and \<open>classify\<close> from a raw report to an abstract event; the
    forward simulation of one report (C17, under the bound that the accumulated
    deltas stay inside the \<^verbatim>\<open>LONG\<close> range), of one timer message (C18), and of
    whole message sequences against \<open>engine_run\<close>, the spec's engine driven by the
    events the messages carry, with equal click counts (C20, under the same bound,
    checked along the run by \<open>run_in_range\<close>), and of all of \<^verbatim>\<open>_tWinMain\<close> on the
    messages its loop dispatches (C28).  The spec's scenarios 1--4 are instances of
    C2, C3 and C4; scenario 5 is C19.

  \<^bold>\<open>Modelling decisions.\<close>  \<^verbatim>\<open>LONG\<close> addition wraps at 32 bits, as the compiled
  code does (C leaves it undefined); \<^verbatim>\<open>ABS\<close> is the macro on a wrapped value, so it
  returns \<open>-2\<^sup>3\<^sup>1\<close> for \<open>-2\<^sup>3\<^sup>1\<close>.  The operating system's answers (raw input,
  allocation, double-click time, the \<^verbatim>\<open>GetMessage\<close> stream) are inputs of the model;
  whether \<^verbatim>\<open>SetTimer\<close> and \<^verbatim>\<open>SendInput\<close> fail is a condition of the OS state that
  messages do not change: the initial state has both calls succeeding, so the claims
  on reachable states and the refinement describe a system whose calls succeed, and
  C2, C4, C10, C24 and C25 state what happens when they fail.  The runs of
  \<open>os_run\<close> and \<open>reachable\<close> deliver \<^verbatim>\<open>WM_TIMER\<close> only while its timer is set:
  they take \<^verbatim>\<open>KillTimer\<close> to discard a \<^verbatim>\<open>WM_TIMER\<close> already queued, which the
  Win32 documentation does not promise; C5, C21 and C22 rest on it.  \<open>pump\<close> takes
  a failing \<^verbatim>\<open>GetMessage\<close> to leave the \<^verbatim>\<open>MSG\<close> buffer as it was.  No loop of \<^verbatim>\<open>WndProc\<close> can diverge; the message pump is structural
  recursion over the finite list of answers, so no fuel is needed and every run
  returns.  The refinement bound (\<open>|accumulated delta| < 2\<^sup>3\<^sup>1\<close>) is the exact range
  in which 32-bit addition is integer addition; outside it the code and the
  specification differ, which the findings record.

  \<^bold>\<open>Not modelled.\<close>  \<^verbatim>\<open>TranslateMessage\<close> (no effect on messages of a
  message-only window), the window-class and window-creation parameters beyond
  success or failure, a \<^verbatim>\<open>SendInput\<close> that inserts only part of its inputs, a
  failure condition that changes in the middle of a run, and the timing of timer
  expiry (a \<^verbatim>\<open>WM_TIMER\<close> may arrive whenever the timer is set).

  \<^bold>\<open>Plan.\<close>  Next: failure conditions that change
  between messages, with the invariant claims restated for them.
\<close>

unbundle bit_operations_syntax

section \<open>The window procedure refines the specified engine\<close>

text \<open>The abstraction: the statics read as integers and as a button set, and the
  pending timer as the spec's flag.  The spec's engine presumes collaborators that do
  what they are asked, so the relation holds only while \<^verbatim>\<open>SetTimer\<close> and
  \<^verbatim>\<open>SendInput\<close> succeed.  A raw report is classified into the spec's event
  the way line 81 classifies it.\<close>

definition engine_rel :: "engine \<Rightarrow> wnd_state \<Rightarrow> bool" where
  "engine_rel e s \<longleftrightarrow>
     sint (lLastClickDeltaX s) = accumDeltaX e \<and> sint (lLastClickDeltaY s) = accumDeltaY e \<and>
     fOkToClick s = motionArmed e \<and> buttons_down_in (usMouseButtonsDown s) = buttonsDown e \<and>
     only_down_bits (usMouseButtonsDown s) \<and> timer_pending s = pendingTimer e \<and>
     \<not> set_timer_fails s \<and> \<not> input_blocked s"

definition classify :: "RAWMOUSE \<Rightarrow> event" where
  "classify m =
     (let flags = (ucast (usButtonFlags m) :: UINT)
      in if button_or_wheel flags
         then ButtonOrWheel (buttons_down_in flags) (buttons_up_in flags) (flags AND RI_MOUSE_WHEEL \<noteq> 0)
         else Motion (sint (lLastX m)) (sint (lLastY m)))"

text \<open>The spec's engine driven by the messages the window receives: an accepted raw
  report is its classified event, \<^verbatim>\<open>WM_TIMER\<close> is \<^verbatim>\<open>onTimerFire\<close>, anything
  else leaves the engine alone.  A run counts the clicks the engine emits, and is in
  range while every motion keeps both accumulations inside the \<^verbatim>\<open>LONG\<close> range.\<close>

definition msg_event :: "message \<Rightarrow> event option" where
  "msg_event msg = (case msg of
      WM_INPUT r \<Rightarrow> (if accepted_report r then Some (classify (mouse (raw_data r))) else None)
    | WM_TIMER i \<Rightarrow> Some TimerFire
    | _ \<Rightarrow> None)"

definition engine_msg :: "message \<Rightarrow> engine \<Rightarrow> engine \<times> bool" where
  "engine_msg msg e = (case msg_event msg of None \<Rightarrow> (e, False) | Some ev \<Rightarrow> engine_step ev e)"

fun in_range_event :: "event \<Rightarrow> engine \<Rightarrow> bool" where
  "in_range_event (Motion dx dy) e \<longleftrightarrow> \<bar>accumDeltaX e + dx\<bar> < 2 ^ 31 \<and> \<bar>accumDeltaY e + dy\<bar> < 2 ^ 31"
| "in_range_event ev e \<longleftrightarrow> True"

definition msg_in_range :: "message \<Rightarrow> engine \<Rightarrow> bool" where
  "msg_in_range msg e = (case msg_event msg of None \<Rightarrow> True | Some ev \<Rightarrow> in_range_event ev e)"

fun engine_run :: "message list \<Rightarrow> engine \<Rightarrow> engine \<times> nat" where
  "engine_run [] e = (e, 0)"
| "engine_run (msg # ms) e =
     (let (e1, c) = engine_msg msg e; (e2, n) = engine_run ms e1 in (e2, (if c then 1 else 0) + n))"

fun run_in_range :: "message list \<Rightarrow> engine \<Rightarrow> bool" where
  "run_in_range [] e = True"
| "run_in_range (msg # ms) e = (msg_in_range msg e \<and> run_in_range ms (fst (engine_msg msg e)))"

lemma engine_rel_init: "engine_rel engine_init (init_state dct)"
  by (simp add: engine_rel_def engine_init_def init_state_def only_down_bits_def timer_pending_def
      buttons_down_in_def)

lemma exceeds_threshold_in_range:
  "\<bar>sint v\<bar> < 2 ^ 31 \<Longrightarrow> exceeds_threshold v \<longleftrightarrow> THRESHOLD < \<bar>sint v\<bar>"
  by (auto simp: exceeds_threshold_abs_sint THRESHOLD_def)

lemma sint_add_long_bounded:
  "\<bar>sint a + sint b\<bar> < 2 ^ 31 \<Longrightarrow> sint ((a :: LONG) + b) = sint a + sint b"
  by (rule sint_add_long) simp_all

lemma relative_mouse_input_sim:
  assumes rel: "engine_rel e s" and rng: "in_range_event (classify m) e"
  shows "engine_rel (fst (engine_step (classify m) e)) (relative_mouse_input m s) \<and>
         \<not> snd (engine_step (classify m) e)"
proof (cases "button_or_wheel (ucast (usButtonFlags m))")
  case True
  with rel show ?thesis
    by (simp add: classify_def relative_mouse_input_button engine_rel_def onButtonOrWheelEvent_def
        Let_def state_defs buttons_down_in_update_sets update_buttons_down_only_down_bits)
next
  case False
  with rng have bx: "\<bar>accumDeltaX e + sint (lLastX m)\<bar> < 2 ^ 31"
    and by': "\<bar>accumDeltaY e + sint (lLastY m)\<bar> < 2 ^ 31"
    by (simp_all add: classify_def)
  from rel bx by' have x: "sint (lLastClickDeltaX s + lLastX m) = accumDeltaX e + sint (lLastX m)"
    and y: "sint (lLastClickDeltaY s + lLastY m) = accumDeltaY e + sint (lLastY m)"
    by (simp_all add: engine_rel_def sint_add_long_bounded)
  from rel have z: "usMouseButtonsDown s = 0 \<longleftrightarrow> buttonsDown e = {}"
    by (simp add: engine_rel_def only_down_bits_zero_iff)
  have ok: "fOkToClick (accumulate_motion m s) \<longleftrightarrow>
      motionArmed e \<or> THRESHOLD < \<bar>accumDeltaX e + sint (lLastX m)\<bar> \<or>
      THRESHOLD < \<bar>accumDeltaY e + sint (lLastY m)\<bar>"
    using rel bx by' x y by (simp add: engine_rel_def exceeds_threshold_in_range)
  from False rel x y z ok show ?thesis
    by (auto simp: classify_def relative_mouse_input_motion engine_rel_def onMotion_def Let_def state_defs)
qed

lemma relative_mouse_input_sent_input: "sent_input (relative_mouse_input m s) = sent_input s"
  by (simp add: relative_mouse_input_def Let_def state_defs)

lemma WndProc_sim:
  assumes rel: "engine_rel e s" and rng: "msg_in_range msg e"
  shows "engine_rel (fst (engine_msg msg e)) (snd (WndProc msg s)) \<and>
         clicks (snd (WndProc msg s)) = clicks s + (if snd (engine_msg msg e) then 1 else 0)"
proof (cases msg)
  case (WM_INPUT r)
  show ?thesis
  proof (cases "accepted_report r")
    case True
    with WM_INPUT rng have "in_range_event (classify (mouse (raw_data r))) e"
      by (simp add: msg_in_range_def msg_event_def)
    from relative_mouse_input_sim [OF rel this] WM_INPUT True show ?thesis
      by (simp add: engine_msg_def msg_event_def on_WM_INPUT_accepted clicks_def
          relative_mouse_input_sent_input)
  next
    case False
    with WM_INPUT rel show ?thesis
      by (simp add: engine_msg_def msg_event_def on_WM_INPUT_accepted)
  qed
next
  case (WM_TIMER i)
  with rel show ?thesis
    by (simp add: engine_msg_def msg_event_def engine_rel_def onTimerFire_def on_WM_TIMER_def
        state_defs clicks_def)
next
  case WM_DESTROY
  with rel show ?thesis
    by (simp add: engine_msg_def msg_event_def engine_rel_def state_defs clicks_def)
next
  case (WM_OTHER n)
  with rel show ?thesis
    by (simp add: engine_msg_def msg_event_def)
qed

text \<open>The whole-run simulation, one message at a time.\<close>

lemma dispatch_sim:
  "engine_rel e s \<Longrightarrow> run_in_range ms e \<Longrightarrow>
   engine_rel (fst (engine_run ms e)) (dispatch ms s) \<and>
   clicks (dispatch ms s) = clicks s + snd (engine_run ms e)"
proof (induction ms arbitrary: e s)
  case Nil
  then show ?case by simp
next
  case (Cons msg ms)
  from Cons.prems have "engine_rel (fst (engine_msg msg e)) (snd (WndProc msg s)) \<and>
      clicks (snd (WndProc msg s)) = clicks s + (if snd (engine_msg msg e) then 1 else 0)"
    by (intro WndProc_sim) simp_all
  with Cons.prems Cons.IH [of "fst (engine_msg msg e)" "snd (WndProc msg s)"] show ?case
    by (auto simp: split_def Let_def)
qed

text \<open>C17: every relative mouse report the window procedure accepts moves its state
  as the spec's engine moves on the classified event (a motion or a button/wheel
  event), as long as the accumulated deltas stay within the 32-bit range, where
  \<^verbatim>\<open>LONG\<close> addition and \<^verbatim>\<open>ABS\<close> are exact.\<close>

theorem relative_mouse_input_refines:
  assumes rel: "engine_rel e s"
    and bx: "\<bar>accumDeltaX e + sint (lLastX m)\<bar> < 2 ^ 31"
    and by': "\<bar>accumDeltaY e + sint (lLastY m)\<bar> < 2 ^ 31"
  shows "engine_rel (fst (engine_step (classify m) e)) (relative_mouse_input m s) \<and>
         \<not> snd (engine_step (classify m) e)"
proof -
  have "in_range_event (classify m) e"
    using bx by' by (simp add: classify_def Let_def)
  with rel show ?thesis by (rule relative_mouse_input_sim)
qed

theorem relative_mouse_input_refines_witness:
  "engine_rel (fst (engine_step (classify \<lparr>usFlags = 0, usButtonFlags = 0, lLastX = 3, lLastY = 0\<rparr>) engine_init))
     (relative_mouse_input \<lparr>usFlags = 0, usButtonFlags = 0, lLastX = 3, lLastY = 0\<rparr> (init_state 500)) \<and>
   pendingTimer (fst (engine_step (classify \<lparr>usFlags = 0, usButtonFlags = 0, lLastX = 3, lLastY = 0\<rparr>) engine_init))"
proof -
  have h: "\<bar>accumDeltaX engine_init + sint (lLastX \<lparr>usFlags = 0, usButtonFlags = 0, lLastX = 3, lLastY = 0\<rparr>)\<bar> < 2 ^ 31"
    "\<bar>accumDeltaY engine_init + sint (lLastY \<lparr>usFlags = 0, usButtonFlags = 0, lLastX = 3, lLastY = 0\<rparr>)\<bar> < 2 ^ 31"
    by (simp_all add: engine_init_def)
  have "pendingTimer (fst (engine_step (classify \<lparr>usFlags = 0, usButtonFlags = 0, lLastX = 3, lLastY = 0\<rparr>) engine_init))"
    by (simp add: classify_def button_or_wheel_def engine_init_def onMotion_def THRESHOLD_def)
  with relative_mouse_input_refines [OF engine_rel_init h] show ?thesis by simp
qed

text \<open>C18: \<^verbatim>\<open>WM_TIMER\<close> implements \<^verbatim>\<open>onTimerFire\<close>: the states stay related and
  the one click the spec emits is the one down/up pair the code injects.\<close>

theorem timer_fire_refines:
  "engine_rel e s \<Longrightarrow>
   engine_rel (fst (engine_step TimerFire e)) (snd (WndProc (WM_TIMER i) s)) \<and>
   snd (engine_step TimerFire e) \<and>
   sent_input (snd (WndProc (WM_TIMER i) s)) = sent_input s @ [MOUSEEVENTF_LEFTDOWN, MOUSEEVENTF_LEFTUP]"
  by (simp add: engine_rel_def onTimerFire_def on_WM_TIMER_def state_defs)

theorem timer_fire_refines_witness:
  "engine_rel (fst (engine_step TimerFire engine_init)) (snd (WndProc (WM_TIMER 1) (init_state 500))) \<and>
   sent_input (snd (WndProc (WM_TIMER 1) (init_state 500))) = [MOUSEEVENTF_LEFTDOWN, MOUSEEVENTF_LEFTUP]"
  using timer_fire_refines [OF engine_rel_init, of 1 500] by (simp add: init_state_def)

text \<open>C20: over any sequence of messages, the window procedure implements the
  spec's engine run on the events those messages carry: the final states are related
  and the code has injected exactly as many clicks as the engine emitted, as long as
  the accumulated deltas stay inside the \<^verbatim>\<open>LONG\<close> range.\<close>

theorem dispatch_refines:
  "engine_rel e s \<Longrightarrow> run_in_range ms e \<Longrightarrow>
   engine_rel (fst (engine_run ms e)) (dispatch ms s) \<and>
   clicks (dispatch ms s) = clicks s + snd (engine_run ms e)"
  by (rule dispatch_sim)

theorem dispatch_refines_witness:
  "engine_rel (fst (engine_run [WM_INPUT (motion_report 3 0), WM_TIMER 1] engine_init))
     (dispatch [WM_INPUT (motion_report 3 0), WM_TIMER 1] (init_state 500)) \<and>
   clicks (dispatch [WM_INPUT (motion_report 3 0), WM_TIMER 1] (init_state 500)) = 1"
proof -
  have r: "run_in_range [WM_INPUT (motion_report 3 0), WM_TIMER 1] engine_init"
    by (simp add: engine_msg_def msg_event_def msg_in_range_def accepted_report_def motion_report_def
        classify_def button_or_wheel_def win_defs engine_init_def)
  have c: "snd (engine_run [WM_INPUT (motion_report 3 0), WM_TIMER 1] engine_init) = 1"
    by (simp add: engine_msg_def msg_event_def accepted_report_def motion_report_def
        classify_def button_or_wheel_def win_defs onTimerFire_def)
  from dispatch_refines [OF engine_rel_init r, of 500] c show ?thesis
    by (simp add: clicks_def init_state_def)
qed

text \<open>C28: the composition of the bootstrap, the message loop and the window
  procedure: once started, the window state of \<^verbatim>\<open>_tWinMain\<close> is related to the
  spec's engine run on the messages the loop dispatches (the replays after
  \<^verbatim>\<open>GetMessage\<close> errors included), and the clicks injected are the clicks that
  run emits, while the accumulations stay inside the \<^verbatim>\<open>LONG\<close> range.\<close>

theorem winmain_refines_engine:
  assumes "mutex_created env" and "error_after_mutex env \<noteq> ERROR_ALREADY_EXISTS"
    and "class_registered env" and "window_created env" and "raw_input_registered env"
    and "run_in_range (dispatched answers (WM_OTHER 0)) engine_init"
  shows "engine_rel (fst (engine_run (dispatched answers (WM_OTHER 0)) engine_init))
           (final_state (tWinMain env answers dct)) \<and>
         clicks (final_state (tWinMain env answers dct)) =
           snd (engine_run (dispatched answers (WM_OTHER 0)) engine_init)"
proof -
  have "final_state (tWinMain env answers dct) = snd (pump answers (WM_OTHER 0) (init_state dct))"
    using assms(1-5) by (auto simp: tWinMain_def split: prod.split option.split)
  also have "\<dots> = dispatch (dispatched answers (WM_OTHER 0)) (init_state dct)"
    by (rule pump_dispatched)
  finally show ?thesis
    using dispatch_sim [OF engine_rel_init assms(6), of dct] by (simp add: clicks_def init_state_def)
qed

theorem winmain_refines_engine_witness:
  "clicks (final_state (tWinMain boot_ok
     [GM_MSG (WM_INPUT (motion_report 3 0)), GM_MSG (WM_TIMER 1), GM_ERROR] 500)) = 2"
proof -
  have h: "mutex_created boot_ok" "error_after_mutex boot_ok \<noteq> ERROR_ALREADY_EXISTS"
    "class_registered boot_ok" "window_created boot_ok" "raw_input_registered boot_ok"
    by (simp_all add: boot_ok_def win_defs)
  have r: "run_in_range (dispatched [GM_MSG (WM_INPUT (motion_report 3 0)), GM_MSG (WM_TIMER 1), GM_ERROR]
      (WM_OTHER 0)) engine_init"
    by (simp add: engine_msg_def msg_event_def msg_in_range_def accepted_report_def motion_report_def
        classify_def button_or_wheel_def win_defs engine_init_def onMotion_def onTimerFire_def)
  have c: "snd (engine_run (dispatched [GM_MSG (WM_INPUT (motion_report 3 0)), GM_MSG (WM_TIMER 1), GM_ERROR]
      (WM_OTHER 0)) engine_init) = 2"
    by (simp add: engine_msg_def msg_event_def accepted_report_def motion_report_def
        classify_def button_or_wheel_def win_defs onTimerFire_def)
  from winmain_refines_engine [OF h r, of 500] c show ?thesis by simp
qed

end
